theory Spec2Isabelle
  imports Main "HOL-Library.Word" "HOL-Library.List_Lexorder" "HOL-Library.Multiset"
begin

unbundle bit_operations_syntax

section \<open>Values of the runtime\<close>

text \<open>
  A JavaScript string is a sequence of UTF-16 code units; a Buffer is a sequence of
  bytes; a file mode is the integer the \<open>&\<close> operator works on.  ASCII literals of the
  source are written through \<open>js\<close>.
\<close>

type_synonym byte = "8 word"
type_synonym bytes = "byte list"
type_synonym jsstring = "16 word list"
type_synonym mode = "32 word"

definition js :: "string \<Rightarrow> jsstring" where
  "js s = map (\<lambda>c. of_nat (of_char c)) s"

text \<open>Truthiness of an optional string: \<open>undefined\<close> and \<open>""\<close> are falsy.\<close>

definition truthy :: "jsstring option \<Rightarrow> bool" where
  "truthy v = (case v of None \<Rightarrow> False | Some s \<Rightarrow> s \<noteq> [])"

section \<open>errors.ts\<close>

datatype error =
    SecurityError jsstring jsstring jsstring jsstring
  | IntegrityError jsstring
  | KeyNotFoundError jsstring
  | DecryptionError jsstring "jsstring option"
  | InitializationError jsstring
  | SyntaxError jsstring
  | ErrnoException jsstring jsstring
  | JsError jsstring

text \<open>
  \<open>SecurityError message expected actual path\<close>, \<open>DecryptionError message keyHash\<close>;
  \<open>SyntaxError\<close> is what \<open>new RegExp\<close> throws, \<open>ErrnoException code path\<close> what the
  file system throws, and \<open>JsError\<close> any other \<open>Error\<close> of the runtime, by message.
\<close>

definition ellipsis :: "16 word" where
  "ellipsis = 0x2026"

fun error_message :: "error \<Rightarrow> jsstring" where
  "error_message (SecurityError m expected actual path) =
     m @ [0x20, 0x2014, 0x20] @ js ''expected '' @ expected @ js '', got '' @ actual
       @ js '' on \"'' @ path @ js ''\"''"
| "error_message (IntegrityError m) = m"
| "error_message (KeyNotFoundError k) = js ''Key not found: \"'' @ k @ js ''\"''"
| "error_message (DecryptionError m keyHash) =
     js ''Decryption failed''
       @ (if truthy keyHash then js '' (entry: '' @ take 16 (the keyHash) @ [ellipsis] @ js '')''
          else [])
       @ js '': '' @ m"
| "error_message (InitializationError m) = js ''Initialization failed: '' @ m"
| "error_message (SyntaxError m) = m"
| "error_message (ErrnoException c path) = c @ js '': '' @ path"
| "error_message (JsError m) = m"

fun error_code :: "error \<Rightarrow> string option" where
  "error_code (SecurityError _ _ _ _) = Some ''SECURITY_ERROR''"
| "error_code (IntegrityError _) = Some ''INTEGRITY_ERROR''"
| "error_code (KeyNotFoundError _) = Some ''KEY_NOT_FOUND''"
| "error_code (DecryptionError _ _) = Some ''DECRYPTION_ERROR''"
| "error_code (InitializationError _) = Some ''INITIALIZATION_ERROR''"
| "error_code (SyntaxError _) = None"
| "error_code (ErrnoException _ _) = None"
| "error_code (JsError _) = None"

definition integrity_default :: jsstring where
  "integrity_default =
     js ''Database integrity check failed '' @ [0x2014] @ js '' possible tampering detected''"

section \<open>types.ts\<close>

datatype StorageLocation = Home | Xdg

record OpenOptions =
  opt_path :: "jsstring option"
  opt_location :: "StorageLocation option"

record EncryptedEntry =
  key_hash :: jsstring
  key_enc :: bytes
  iv :: bytes
  cipher :: bytes
  created :: nat
  updated :: nat

definition IV_LENGTH :: nat where "IV_LENGTH = 12"
definition AUTH_TAG_LENGTH :: nat where "AUTH_TAG_LENGTH = 16"
definition KEY_LENGTH :: nat where "KEY_LENGTH = 32"
definition KEYFILE_LENGTH :: nat where "KEYFILE_LENGTH = 32"
definition SALT_LENGTH :: nat where "SALT_LENGTH = 32"
definition STORE_VERSION :: jsstring where "STORE_VERSION = js ''1''"
definition DIR_NAME :: jsstring where "DIR_NAME = js ''.secrets-engine''"
definition KEYFILE_NAME :: jsstring where "KEYFILE_NAME = js ''.keyfile''"
definition DB_NAME :: jsstring where "DB_NAME = js ''store.db''"
definition META_NAME :: jsstring where "META_NAME = js ''meta.json''"

section \<open>What the runtime provides\<close>

text \<open>
  A parsed JSON document, as far as the engine reads one: an object with string
  members, \<open>null\<close> (a property read on it throws), or any other value (a property read
  on it gives \<open>undefined\<close>).
\<close>

datatype json = JObject "(jsstring \<times> jsstring) list" | JNull | JOther

text \<open>
  The primitives of \<open>node:crypto\<close>, \<open>node:path\<close>, \<open>JSON\<close> and SQLite are parameters of
  the model.  \<open>aead_seal key iv plaintext\<close> is AES-256-GCM encryption giving the
  ciphertext and the tag; \<open>aead_open key iv ciphertext tag\<close> gives the plaintext, or
  the message of the exception the decipher throws; \<open>json_parse\<close> gives \<open>None\<close> where
  \<open>JSON.parse\<close> throws; \<open>db_image\<close> gives the bytes of the main database file that
  holds the given rows.
\<close>

record prims =
  aead_seal :: "bytes \<Rightarrow> bytes \<Rightarrow> bytes \<Rightarrow> bytes \<times> bytes"
  aead_open :: "bytes \<Rightarrow> bytes \<Rightarrow> bytes \<Rightarrow> bytes \<Rightarrow> jsstring + bytes"
  hmac_sha256 :: "bytes \<Rightarrow> bytes \<Rightarrow> bytes"
  sha256_digest :: "bytes \<Rightarrow> bytes"
  scrypt :: "bytes \<Rightarrow> bytes \<Rightarrow> nat \<Rightarrow> nat \<Rightarrow> nat \<Rightarrow> nat \<Rightarrow> bytes"
  json_parse :: "jsstring \<Rightarrow> json option"
  json_stringify :: "json \<Rightarrow> jsstring"
  path_join :: "jsstring \<Rightarrow> jsstring \<Rightarrow> jsstring"
  db_image :: "EncryptedEntry list \<Rightarrow> bytes"

text \<open>The process environment read by \<open>platform.ts\<close>.\<close>

record environment =
  win32 :: bool
  XDG_CONFIG_HOME :: "jsstring option"
  APPDATA :: "jsstring option"
  homedir :: jsstring
  hostname :: jsstring
  username :: jsstring
  networkInterfaces :: "(bool \<times> jsstring) list list"

section \<open>platform.ts: path resolution\<close>

definition resolveXdgPath :: "prims \<Rightarrow> environment \<Rightarrow> error + jsstring" where
  "resolveXdgPath P env =
     (if win32 env then
        (if \<not> truthy (APPDATA env)
         then Inl (InitializationError (js ''APPDATA environment variable is not set''))
         else Inr (path_join P (the (APPDATA env)) (js ''secrets-engine'')))
      else
        (let xdgConfig = (case XDG_CONFIG_HOME env of
                            Some x \<Rightarrow> x
                          | None \<Rightarrow> path_join P (homedir env) (js ''.config''))
         in Inr (path_join P xdgConfig (js ''secrets-engine''))))"

definition options_path :: "OpenOptions option \<Rightarrow> jsstring option" where
  "options_path options = (case options of None \<Rightarrow> None | Some opts \<Rightarrow> opt_path opts)"

definition options_location :: "OpenOptions option \<Rightarrow> StorageLocation option" where
  "options_location options = (case options of None \<Rightarrow> None | Some opts \<Rightarrow> opt_location opts)"

definition resolveStoragePath :: "prims \<Rightarrow> environment \<Rightarrow> OpenOptions option \<Rightarrow> error + jsstring" where
  "resolveStoragePath P env options =
     (if truthy (options_path options) then Inr (the (options_path options))
      else if options_location options = Some Xdg then resolveXdgPath P env
      else if \<not> win32 env \<and> truthy (XDG_CONFIG_HOME env)
        then Inr (path_join P (the (XDG_CONFIG_HOME env)) (js ''secrets-engine''))
      else Inr (path_join P (homedir env) DIR_NAME))"

section \<open>glob.ts\<close>

text \<open>
  \<open>matchGlob\<close> rewrites the pattern into the source text of a regular expression, in
  two passes of \<open>String.prototype.replace\<close>, and hands \<open>^...$\<close> to \<open>new RegExp\<close>.
\<close>

definition regex_escaped :: jsstring where
  "regex_escaped = js (''.+^${}()|[]'' @ [CHR 0x5C])"

definition backslash :: "16 word" where
  "backslash = 0x5C"

definition escape_pass :: "jsstring \<Rightarrow> jsstring" where
  "escape_pass pattern =
     concat (map (\<lambda>c. if c \<in> set regex_escaped then [backslash, c] else [c]) pattern)"

definition star_pass :: "jsstring \<Rightarrow> jsstring" where
  "star_pass s = concat (map (\<lambda>c. if c = 0x2A then js ''[^.]*'' else [c]) s)"

definition regexStr :: "jsstring \<Rightarrow> jsstring" where
  "regexStr pattern = star_pass (escape_pass pattern)"

text \<open>
  The regular expressions of the runtime, for the syntax the two passes can emit:
  literal code units, identity escapes, the class \<open>[^.]\<close>, the assertions \<open>^\<close> and
  \<open>$\<close>, and the quantifiers \<open>*\<close> and \<open>?\<close> (greedy or lazy, which \<open>test\<close> cannot tell
  apart).  A quantifier with no atom before it is the SyntaxError "Nothing to repeat".
\<close>

datatype token = TLit "16 word" | TNotDot | TBol | TEol | TStar | TQuest | TOther "16 word"

fun lex :: "jsstring \<Rightarrow> token list" where
  "lex [] = []"
| "lex (c # s) =
     (if c = backslash then
        (case s of [] \<Rightarrow> [TOther c] | d # s' \<Rightarrow> TLit d # lex s')
      else if c = 0x5B then
        (case s of
           a # b # d # s' \<Rightarrow>
             (if a = 0x5E \<and> b = 0x2E \<and> d = 0x5D then TNotDot # lex s' else [TOther c])
         | _ \<Rightarrow> [TOther c])
      else if c = 0x5E then TBol # lex s
      else if c = 0x24 then TEol # lex s
      else if c = 0x2A then TStar # lex s
      else if c = 0x3F then TQuest # lex s
      else if c \<in> set (js ''.+{}()|]'') then TOther c # lex s
      else TLit c # lex s)"

datatype atom = Lit "16 word" | NotDot
datatype quant = Once | Opt | Star
datatype node = BOL | EOL | Term atom quant

fun quantifier :: "token list \<Rightarrow> quant \<times> token list" where
  "quantifier (TStar # TQuest # ts) = (Star, ts)"
| "quantifier (TStar # ts) = (Star, ts)"
| "quantifier (TQuest # TQuest # ts) = (Opt, ts)"
| "quantifier (TQuest # ts) = (Opt, ts)"
| "quantifier ts = (Once, ts)"

lemma quantifier_length: "length (snd (quantifier ts)) \<le> length ts"
  by (induction ts rule: quantifier.induct) auto

function parse_nodes :: "token list \<Rightarrow> error + node list" where
  "parse_nodes [] = Inr []"
| "parse_nodes (TBol # ts) = map_sum id ((#) BOL) (parse_nodes ts)"
| "parse_nodes (TEol # ts) = map_sum id ((#) EOL) (parse_nodes ts)"
| "parse_nodes (TLit c # ts) =
     map_sum id ((#) (Term (Lit c) (fst (quantifier ts)))) (parse_nodes (snd (quantifier ts)))"
| "parse_nodes (TNotDot # ts) =
     map_sum id ((#) (Term NotDot (fst (quantifier ts)))) (parse_nodes (snd (quantifier ts)))"
| "parse_nodes (TStar # ts) = Inl (SyntaxError (js ''Nothing to repeat''))"
| "parse_nodes (TQuest # ts) = Inl (SyntaxError (js ''Nothing to repeat''))"
| "parse_nodes (TOther c # ts) = Inl (SyntaxError (js ''Unsupported syntax''))"
  by pat_completeness auto
termination
  by (relation "measure length") (auto simp: quantifier_length le_imp_less_Suc)

definition RegExp :: "jsstring \<Rightarrow> error + node list" where
  "RegExp source = parse_nodes (lex source)"

fun accepts :: "atom \<Rightarrow> 16 word \<Rightarrow> bool" where
  "accepts (Lit c) x = (x = c)"
| "accepts NotDot x = (x \<noteq> 0x2E)"

text \<open>
  \<open>run ns at_start input\<close>: the nodes match some prefix of the input that is left;
  \<open>at_start\<close> says whether the position is the start of the whole input.
\<close>

fun run :: "node list \<Rightarrow> bool \<Rightarrow> jsstring \<Rightarrow> bool" where
  "run [] at_start k = True"
| "run (BOL # ns) at_start k = (at_start \<and> run ns at_start k)"
| "run (EOL # ns) at_start k = (k = [] \<and> run ns at_start k)"
| "run (Term a Once # ns) at_start [] = False"
| "run (Term a Once # ns) at_start (c # k) = (accepts a c \<and> run ns False k)"
| "run (Term a Opt # ns) at_start [] = run ns at_start []"
| "run (Term a Opt # ns) at_start (c # k) =
     (run ns at_start (c # k) \<or> (accepts a c \<and> run ns False k))"
| "run (Term a Star # ns) at_start [] = run ns at_start []"
| "run (Term a Star # ns) at_start (c # k) =
     (run ns at_start (c # k) \<or> (accepts a c \<and> run (Term a Star # ns) False k))"

definition regex_test :: "node list \<Rightarrow> jsstring \<Rightarrow> bool" where
  "regex_test ns key = list_ex (\<lambda>i. run ns (i = 0) (drop i key)) [0..<Suc (length key)]"

definition matchGlob :: "jsstring \<Rightarrow> jsstring \<Rightarrow> error + bool" where
  "matchGlob pattern key =
     (case RegExp (js ''^'' @ regexStr pattern @ js ''$'') of
        Inl e \<Rightarrow> Inl e
      | Inr regex \<Rightarrow> Inr (regex_test regex key))"

fun filterKeys :: "jsstring list \<Rightarrow> jsstring \<Rightarrow> error + jsstring list" where
  "filterKeys [] pattern = Inr []"
| "filterKeys (key # keys) pattern =
     (case matchGlob pattern key of
        Inl e \<Rightarrow> Inl e
      | Inr keep \<Rightarrow>
          (case filterKeys keys pattern of
             Inl e \<Rightarrow> Inl e
           | Inr rest \<Rightarrow> Inr (if keep then key # rest else rest)))"

text \<open>
  The pattern language as the documentation of \<open>matchGlob\<close> gives it: \<open>*\<close> stands for a
  run of characters other than \<open>.\<close>, every other character for itself.
\<close>

fun glob_spec :: "jsstring \<Rightarrow> jsstring \<Rightarrow> bool" where
  "glob_spec [] key = (key = [])"
| "glob_spec (p # ps) [] = (p = 0x2A \<and> glob_spec ps [])"
| "glob_spec (p # ps) (c # key) =
     (if p = 0x2A then glob_spec ps (c # key) \<or> (c \<noteq> 0x2E \<and> glob_spec (p # ps) key)
      else p = c \<and> glob_spec ps key)"

section \<open>Text encodings of the runtime\<close>

text \<open>
  The code points of a string, read the way the string iterator reads them: a high
  surrogate followed by a low one is one supplementary code point, any other code
  unit stands for itself.
\<close>

definition is_high :: "16 word \<Rightarrow> bool" where
  "is_high u = (0xD800 \<le> u \<and> u \<le> 0xDBFF)"

definition is_low :: "16 word \<Rightarrow> bool" where
  "is_low u = (0xDC00 \<le> u \<and> u \<le> 0xDFFF)"

fun code_points :: "jsstring \<Rightarrow> nat list" where
  "code_points [] = []"
| "code_points [u] = [unat u]"
| "code_points (u # v # s) =
     (if is_high u \<and> is_low v
      then (0x10000 + (unat u - 0xD800) * 0x400 + (unat v - 0xDC00)) # code_points s
      else unat u # code_points (v # s))"

definition well_formed :: "jsstring \<Rightarrow> bool" where
  "well_formed s = (\<forall>cp \<in> set (code_points s). \<not> (0xD800 \<le> cp \<and> cp \<le> 0xDFFF))"

text \<open>
  \<open>Buffer.from(s, "utf-8")\<close> and \<open>cipher.update(s, "utf-8")\<close>: every code point as
  one to four bytes, a lone surrogate as U+FFFD.
\<close>

definition utf8_of_code_point :: "nat \<Rightarrow> bytes" where
  "utf8_of_code_point cp =
     (if cp < 0x80 then [of_nat cp]
      else if cp < 0x800 then [of_nat (0xC0 + cp div 0x40), of_nat (0x80 + cp mod 0x40)]
      else if cp < 0x10000 then
        [of_nat (0xE0 + cp div 0x1000), of_nat (0x80 + cp div 0x40 mod 0x40),
         of_nat (0x80 + cp mod 0x40)]
      else
        [of_nat (0xF0 + cp div 0x40000), of_nat (0x80 + cp div 0x1000 mod 0x40),
         of_nat (0x80 + cp div 0x40 mod 0x40), of_nat (0x80 + cp mod 0x40)])"

definition utf8_encode :: "jsstring \<Rightarrow> bytes" where
  "utf8_encode s =
     concat (map (\<lambda>cp. utf8_of_code_point (if 0xD800 \<le> cp \<and> cp \<le> 0xDFFF then 0xFFFD else cp))
                 (code_points s))"

text \<open>
  \<open>buf.toString("utf-8")\<close> never throws: the decoder of the Encoding Standard puts
  U+FFFD where the bytes are not UTF-8.  \<open>utf8_decode cp need lo hi bs\<close> carries the
  code point under construction, the number of continuation bytes still needed and
  the bounds of the next continuation byte.
\<close>

fun utf8_decode :: "nat \<Rightarrow> nat \<Rightarrow> nat \<Rightarrow> nat \<Rightarrow> bytes \<Rightarrow> nat list" where
  "utf8_decode cp need lo hi [] = (if need = 0 then [] else [0xFFFD])"
| "utf8_decode cp need lo hi (b # bs) =
     (if need \<noteq> 0 \<and> lo \<le> unat b \<and> unat b \<le> hi then
        (if need = 1 then (cp * 0x40 + unat b mod 0x40) # utf8_decode 0 0 0x80 0xBF bs
         else utf8_decode (cp * 0x40 + unat b mod 0x40) (need - 1) 0x80 0xBF bs)
      else
        (if need \<noteq> 0 then [0xFFFD] else []) @
        (if unat b \<le> 0x7F then unat b # utf8_decode 0 0 0x80 0xBF bs
         else if 0xC2 \<le> unat b \<and> unat b \<le> 0xDF then
           utf8_decode (unat b mod 0x20) 1 0x80 0xBF bs
         else if 0xE0 \<le> unat b \<and> unat b \<le> 0xEF then
           utf8_decode (unat b mod 0x10) 2
             (if unat b = 0xE0 then 0xA0 else 0x80) (if unat b = 0xED then 0x9F else 0xBF) bs
         else if 0xF0 \<le> unat b \<and> unat b \<le> 0xF4 then
           utf8_decode (unat b mod 0x08) 3
             (if unat b = 0xF0 then 0x90 else 0x80) (if unat b = 0xF4 then 0x8F else 0xBF) bs
         else 0xFFFD # utf8_decode 0 0 0x80 0xBF bs))"

definition utf16_of_code_point :: "nat \<Rightarrow> jsstring" where
  "utf16_of_code_point cp =
     (if cp < 0x10000 then [of_nat cp]
      else [of_nat (0xD800 + (cp - 0x10000) div 0x400), of_nat (0xDC00 + (cp - 0x10000) mod 0x400)])"

definition toString_utf8 :: "bytes \<Rightarrow> jsstring" where
  "toString_utf8 buf = concat (map utf16_of_code_point (utf8_decode 0 0 0x80 0xBF buf))"

text \<open>The bytes are UTF-8 exactly when decoding and encoding again gives them back.\<close>

definition valid_utf8 :: "bytes \<Rightarrow> bool" where
  "valid_utf8 buf = (utf8_encode (toString_utf8 buf) = buf)"

definition hex_digit :: "nat \<Rightarrow> 16 word" where
  "hex_digit n = (if n < 10 then of_nat (0x30 + n) else of_nat (0x61 + (n - 10)))"

definition toString_hex :: "bytes \<Rightarrow> jsstring" where
  "toString_hex buf = concat (map (\<lambda>b. [hex_digit (unat b div 16), hex_digit (unat b mod 16)]) buf)"

definition hex_value :: "16 word \<Rightarrow> nat option" where
  "hex_value c =
     (if 0x30 \<le> c \<and> c \<le> 0x39 then Some (unat c - 0x30)
      else if 0x61 \<le> c \<and> c \<le> 0x66 then Some (unat c - 0x61 + 10)
      else if 0x41 \<le> c \<and> c \<le> 0x46 then Some (unat c - 0x41 + 10)
      else None)"

text \<open>\<open>Buffer.from(s, "hex")\<close> stops at the first pair that is not two hex digits.\<close>

fun from_hex :: "jsstring \<Rightarrow> bytes" where
  "from_hex (a # b # s) =
     (case (hex_value a, hex_value b) of
        (Some x, Some y) \<Rightarrow> of_nat (16 * x + y) # from_hex s
      | _ \<Rightarrow> [])"
| "from_hex _ = []"

section \<open>The machine: file system, database, randomness, clock\<close>

text \<open>
  The storage directory with its three files, as the engine reaches them.  The
  database is in write-ahead-log mode: \<open>db_rows\<close> is the table that connections
  see (main file and log together), \<open>db_file\<close> the rows that have reached the main
  file \<open>store.db\<close>, \<open>None\<close> while the file does not exist.  \<open>mkdir_fault\<close>, \<open>db_fault\<close>
  and \<open>checkpoint_fault\<close> make the corresponding call of the runtime throw.
  \<open>trace\<close> records, in order, the accesses the integrity seal depends on:
  \<open>Checkpoint\<close> is the statement \<open>PRAGMA wal_checkpoint(TRUNCATE)\<close> that
  \<open>store.checkpoint()\<close> runs, \<open>AutoCheckpoint\<close> a checkpoint SQLite runs by itself.
  \<open>store.ts\<close> leaves \<open>wal_autocheckpoint\<close> at its default, so a commit may move the
  log into the main file when the log has grown enough; when that happens is not
  the engine's to say, and \<open>wal_autocheckpoint\<close> gives it for every length of the trace.
\<close>

datatype io_event =
    Checkpoint | AutoCheckpoint | ReadDatabaseFile | WriteMetaFile jsstring
  | Upsert jsstring | Delete jsstring | CloseDatabase | RemoveDirectory

datatype fs_entry = StorageDirectory | KeyFile | MetaFile | DatabaseFile

record world =
  process :: environment
  umask :: mode
  dir_mode :: "mode option"
  keyfile :: "(mode \<times> bytes) option"
  metafile :: "(mode \<times> jsstring) option"
  db_mode :: mode
  db_file :: "EncryptedEntry list option"
  db_rows :: "EncryptedEntry list"
  mkdir_fault :: "jsstring option"
  db_fault :: "jsstring option"
  checkpoint_fault :: "jsstring option"
  wal_autocheckpoint :: "nat \<Rightarrow> bool"
  entropy :: "nat \<Rightarrow> byte"
  entropy_used :: nat
  clock :: nat
  trace :: "io_event list"

definition randomBytes :: "nat \<Rightarrow> world \<Rightarrow> bytes \<times> world" where
  "randomBytes n w =
     (map (entropy w) [entropy_used w ..< entropy_used w + n],
      w\<lparr>entropy_used := entropy_used w + n\<rparr>)"

definition stat_mode :: "world \<Rightarrow> fs_entry \<Rightarrow> mode option" where
  "stat_mode w entry =
     (case entry of
        StorageDirectory \<Rightarrow> dir_mode w
      | KeyFile \<Rightarrow> map_option fst (keyfile w)
      | MetaFile \<Rightarrow> map_option fst (metafile w)
      | DatabaseFile \<Rightarrow> (if db_file w = None then None else Some (db_mode w)))"

text \<open>
  Sequencing of calls that may throw: the second runs on the state the first left,
  unless the first threw.
\<close>

definition and_then ::
  "(error + 'a) \<times> 's \<Rightarrow> ('a \<Rightarrow> 's \<Rightarrow> (error + 'b) \<times> 's) \<Rightarrow> (error + 'b) \<times> 's" where
  "and_then r f = (case r of (Inl e, w) \<Rightarrow> (Inl e, w) | (Inr x, w) \<Rightarrow> f x w)"

section \<open>crypto.ts\<close>

definition SCRYPT_N :: nat where "SCRYPT_N = 131072"
definition SCRYPT_R :: nat where "SCRYPT_R = 8"
definition SCRYPT_P :: nat where "SCRYPT_P = 1"

definition deriveMasterKey :: "prims \<Rightarrow> jsstring \<Rightarrow> bytes \<Rightarrow> bytes \<Rightarrow> bytes" where
  "deriveMasterKey P machineId keyfile_bytes salt_bytes =
     (let password = utf8_encode machineId @ keyfile_bytes
      in scrypt P password salt_bytes KEY_LENGTH SCRYPT_N SCRYPT_R SCRYPT_P)"

record EncryptedPayload =
  payload_iv :: bytes
  payload_ciphertext :: bytes

definition encrypt :: "prims \<Rightarrow> bytes \<Rightarrow> jsstring \<Rightarrow> world \<Rightarrow> EncryptedPayload \<times> world" where
  "encrypt P masterKey plaintext w =
     (case randomBytes IV_LENGTH w of
        (iv_bytes, w') \<Rightarrow>
          (case aead_seal P masterKey iv_bytes (utf8_encode plaintext) of
             (encrypted, authTag) \<Rightarrow>
               (\<lparr>payload_iv = iv_bytes, payload_ciphertext = encrypted @ authTag\<rparr>, w')))"

definition decrypt :: "prims \<Rightarrow> bytes \<Rightarrow> bytes \<Rightarrow> bytes \<Rightarrow> jsstring option \<Rightarrow> error + jsstring" where
  "decrypt P masterKey iv_bytes ciphertext keyHash =
     (if length ciphertext < AUTH_TAG_LENGTH
      then Inl (DecryptionError (js ''Ciphertext too short to contain auth tag'') keyHash)
      else
        (let authTag = drop (length ciphertext - AUTH_TAG_LENGTH) ciphertext;
             encrypted = take (length ciphertext - AUTH_TAG_LENGTH) ciphertext
         in case aead_open P masterKey iv_bytes encrypted authTag of
              Inl message \<Rightarrow> Inl (DecryptionError message keyHash)
            | Inr plain \<Rightarrow> Inr (toString_utf8 plain)))"

definition hmac :: "prims \<Rightarrow> bytes \<Rightarrow> bytes \<Rightarrow> jsstring" where
  "hmac P masterKey data = toString_hex (hmac_sha256 P masterKey data)"

definition sha256 :: "prims \<Rightarrow> bytes \<Rightarrow> bytes" where
  "sha256 P data = sha256_digest P data"

definition generateSalt :: "world \<Rightarrow> bytes \<times> world" where
  "generateSalt w = randomBytes SALT_LENGTH w"

section \<open>platform.ts: directory, keyfile, meta file, machine identity\<close>

text \<open>File modes are written in octal in the source: \<open>octal [7, 0, 0]\<close> is \<open>0o700\<close>.\<close>

definition octal :: "nat list \<Rightarrow> mode" where
  "octal ds = of_nat (foldl (\<lambda>a d. 8 * a + d) 0 ds)"

definition mode_directory :: mode where "mode_directory = octal [7, 0, 0]"
definition mode_database :: mode where "mode_database = octal [6, 0, 0]"
definition mode_keyfile :: mode where "mode_keyfile = octal [4, 0, 0]"
definition mode_meta :: mode where "mode_meta = octal [6, 0, 0]"

fun octal_digits :: "nat \<Rightarrow> nat \<Rightarrow> jsstring" where
  "octal_digits 0 n = []"
| "octal_digits (Suc fuel) n =
     (if n < 8 then [of_nat (0x30 + n)]
      else octal_digits fuel (n div 8) @ [of_nat (0x30 + n mod 8)])"

definition formatOctal :: "mode \<Rightarrow> jsstring" where
  "formatOctal m =
     (let digits = octal_digits 11 (unat m)
      in js ''0o'' @ replicate (3 - length digits) 0x30 @ digits)"

definition verifyPermission ::
  "world \<Rightarrow> fs_entry \<Rightarrow> jsstring \<Rightarrow> mode \<Rightarrow> jsstring \<Rightarrow> error + unit" where
  "verifyPermission w entry filePath expectedMode label =
     (if win32 (process w) then Inr ()
      else
        (case stat_mode w entry of
           None \<Rightarrow> Inl (ErrnoException (js ''ENOENT'') filePath)
         | Some st_mode \<Rightarrow>
             (let actualMode = st_mode AND octal [7, 7, 7]
              in if actualMode \<noteq> expectedMode
                 then Inl (SecurityError (js ''Insecure '' @ label @ js '' permissions'')
                             (formatOctal expectedMode) (formatOctal actualMode) filePath)
                 else Inr ())))"

definition ensureDirectory :: "jsstring \<Rightarrow> world \<Rightarrow> (error + unit) \<times> world" where
  "ensureDirectory dirPath w =
     (if mkdir_fault w \<noteq> None
      then (Inl (InitializationError
                  (js ''Cannot create storage directory at \"'' @ dirPath @ js ''\"'')), w)
      else
        (let w' = (if dir_mode w = None
                   then w\<lparr>dir_mode := Some (mode_directory AND NOT (umask w))\<rparr>
                   else w)
         in if \<not> win32 (process w')
            then (verifyPermission w' StorageDirectory dirPath mode_directory (js ''directory''), w')
            else (Inr (), w')))"

definition isFileNotFoundError :: "error \<Rightarrow> bool" where
  "isFileNotFoundError e = (case e of ErrnoException c _ \<Rightarrow> c = js ''ENOENT'' | _ \<Rightarrow> False)"

text \<open>
  \<open>writeFile\<close> gives its \<open>mode\<close> option to a file it creates, less the umask; \<open>chmod\<close>
  then sets the mode outright.
\<close>

definition createKeyfile :: "jsstring \<Rightarrow> world \<Rightarrow> (error + bytes) \<times> world" where
  "createKeyfile keyfilePath w =
     (case randomBytes KEYFILE_LENGTH w of
        (keyfileData, w1) \<Rightarrow>
          (let written = w1\<lparr>keyfile := Some (mode_keyfile AND NOT (umask w1), keyfileData)\<rparr>;
               w2 = (if \<not> win32 (process written)
                     then written\<lparr>keyfile := Some (mode_keyfile, keyfileData)\<rparr>
                     else written)
           in (Inr keyfileData, w2)))"

definition readFile_keyfile :: "jsstring \<Rightarrow> world \<Rightarrow> error + bytes" where
  "readFile_keyfile keyfilePath w =
     (case keyfile w of
        None \<Rightarrow> Inl (ErrnoException (js ''ENOENT'') keyfilePath)
      | Some (m, content) \<Rightarrow> Inr content)"

definition ensureKeyfile :: "prims \<Rightarrow> jsstring \<Rightarrow> world \<Rightarrow> (error + bytes) \<times> world" where
  "ensureKeyfile P dirPath w =
     (let keyfilePath = path_join P dirPath KEYFILE_NAME;
          attempt =
            (case (if \<not> win32 (process w)
                   then verifyPermission w KeyFile keyfilePath mode_keyfile (js ''keyfile'')
                   else Inr ()) of
               Inl e \<Rightarrow> Inl e
             | Inr u \<Rightarrow> readFile_keyfile keyfilePath w)
      in case attempt of
           Inr content \<Rightarrow> (Inr content, w)
         | Inl e \<Rightarrow> (if isFileNotFoundError e then createKeyfile keyfilePath w else (Inl e, w)))"

definition readMetaFile :: "world \<Rightarrow> jsstring option" where
  "readMetaFile w = map_option snd (metafile w)"

definition writeMetaFile :: "jsstring \<Rightarrow> world \<Rightarrow> (error + unit) \<times> world" where
  "writeMetaFile content w =
     (let created_mode = (case metafile w of
                            None \<Rightarrow> mode_meta AND NOT (umask w)
                          | Some (m, old) \<Rightarrow> m);
          final_mode = (if \<not> win32 (process w) then mode_meta else created_mode)
      in (Inr (), w\<lparr>metafile := Some (final_mode, content),
                     trace := trace w @ [WriteMetaFile content]\<rparr>))"

definition getPrimaryMac :: "environment \<Rightarrow> jsstring" where
  "getPrimaryMac env =
     (case find (\<lambda>(internal, mac). \<not> internal \<and> mac \<noteq> [] \<and> mac \<noteq> js ''00:00:00:00:00:00'')
                (concat (networkInterfaces env)) of
        Some (internal, mac) \<Rightarrow> mac
      | None \<Rightarrow> js ''no-mac-available'')"

definition getMachineIdentity :: "environment \<Rightarrow> jsstring" where
  "getMachineIdentity env = hostname env @ js '':'' @ getPrimaryMac env @ js '':'' @ username env"

section \<open>store.ts\<close>

text \<open>
  The table \<open>secrets\<close>, rows in insertion order, \<open>key_hash\<close> its primary key.  The
  connection is the one the engine holds; its statements act on \<open>db_rows\<close>.
\<close>

definition SecretStore_open :: "prims \<Rightarrow> jsstring \<Rightarrow> world \<Rightarrow> (error + unit) \<times> world" where
  "SecretStore_open P dirPath w =
     (let dbPath = path_join P dirPath DB_NAME
      in if db_fault w \<noteq> None
         then (Inl (InitializationError (js ''Cannot open database at \"'' @ dbPath @ js ''\"'')), w)
         else if db_file w = None
           then (Inr (), w\<lparr>db_file := Some [], db_rows := [],
                            db_mode := octal [6, 6, 6] AND NOT (umask w)\<rparr>)
           else (Inr (), w))"

fun upsert_rows ::
  "jsstring \<Rightarrow> bytes \<Rightarrow> bytes \<Rightarrow> bytes \<Rightarrow> nat \<Rightarrow> EncryptedEntry list \<Rightarrow> EncryptedEntry list" where
  "upsert_rows h ke i c now [] =
     [\<lparr>key_hash = h, key_enc = ke, iv = i, cipher = c, created = now, updated = now\<rparr>]"
| "upsert_rows h ke i c now (r # rs) =
     (if key_hash r = h
      then r\<lparr>key_enc := ke, iv := i, cipher := c, updated := now\<rparr> # rs
      else r # upsert_rows h ke i c now rs)"

text \<open>What SQLite may do at the commit of a statement that writes.\<close>

definition after_commit :: "world \<Rightarrow> world" where
  "after_commit w =
     (if wal_autocheckpoint w (length (trace w))
      then w\<lparr>db_file := Some (db_rows w), trace := trace w @ [AutoCheckpoint]\<rparr>
      else w)"

definition upsert :: "jsstring \<Rightarrow> bytes \<Rightarrow> bytes \<Rightarrow> bytes \<Rightarrow> world \<Rightarrow> world" where
  "upsert h ke i c w =
     after_commit
       (w\<lparr>db_rows := upsert_rows h ke i c (clock w) (db_rows w), trace := trace w @ [Upsert h]\<rparr>)"

definition findByHash :: "jsstring \<Rightarrow> world \<Rightarrow> EncryptedEntry option" where
  "findByHash keyHash w = find (\<lambda>r. key_hash r = keyHash) (db_rows w)"

definition findAll :: "world \<Rightarrow> EncryptedEntry list" where
  "findAll w = db_rows w"

definition deleteByHash :: "jsstring \<Rightarrow> world \<Rightarrow> bool \<times> world" where
  "deleteByHash keyHash w =
     (let changes = length (filter (\<lambda>r. key_hash r = keyHash) (db_rows w))
      in (changes > 0,
          after_commit
            (w\<lparr>db_rows := filter (\<lambda>r. key_hash r \<noteq> keyHash) (db_rows w),
               trace := trace w @ [Delete keyHash]\<rparr>)))"

definition checkpoint :: "world \<Rightarrow> (error + unit) \<times> world" where
  "checkpoint w =
     (case checkpoint_fault w of
        Some message \<Rightarrow> (Inl (JsError message), w)
      | None \<Rightarrow> (Inr (), w\<lparr>db_file := Some (db_rows w), trace := trace w @ [Checkpoint]\<rparr>))"

definition SecretStore_close :: "world \<Rightarrow> world" where
  "SecretStore_close w = w\<lparr>trace := trace w @ [CloseDatabase]\<rparr>"

section \<open>integrity.ts\<close>

definition readFile_database :: "prims \<Rightarrow> jsstring \<Rightarrow> world \<Rightarrow> (error + bytes) \<times> world" where
  "readFile_database P dbFilePath w =
     (case db_file w of
        None \<Rightarrow> (Inl (ErrnoException (js ''ENOENT'') dbFilePath), w)
      | Some main_rows \<Rightarrow> (Inr (db_image P main_rows), w\<lparr>trace := trace w @ [ReadDatabaseFile]\<rparr>))"

definition computeIntegrityHmac ::
  "prims \<Rightarrow> bytes \<Rightarrow> jsstring \<Rightarrow> (world \<Rightarrow> (error + unit) \<times> world) option \<Rightarrow> world
     \<Rightarrow> (error + jsstring) \<times> world" where
  "computeIntegrityHmac P masterKey dbFilePath checkpointFn w =
     and_then
       (case checkpointFn of
          None \<Rightarrow> (Inr (), w)
        | Some f \<Rightarrow>
            (case f w of
               (Inl err, w') \<Rightarrow>
                 (Inl (IntegrityError (js ''Integrity checkpoint failed: '' @ error_message err)), w')
             | (Inr u, w') \<Rightarrow> (Inr (), w')))
       (\<lambda>u w1. and_then (readFile_database P dbFilePath w1)
          (\<lambda>dbBytes w2. (Inr (hmac P masterKey (sha256 P dbBytes)), w2)))"

text \<open>Reading a property of the parsed meta document; on \<open>null\<close> the read throws.\<close>

definition member :: "json \<Rightarrow> string \<Rightarrow> error + jsstring option" where
  "member doc name =
     (case doc of
        JObject kvs \<Rightarrow> Inr (map_of kvs (js name))
      | JNull \<Rightarrow> Inl (JsError (js ''TypeError: null is not an object''))
      | JOther \<Rightarrow> Inr None)"

definition shown :: "jsstring option \<Rightarrow> jsstring" where
  "shown v = (case v of None \<Rightarrow> js ''undefined'' | Some s \<Rightarrow> s)"

definition verifyIntegrity ::
  "prims \<Rightarrow> bytes \<Rightarrow> jsstring \<Rightarrow> (world \<Rightarrow> (error + unit) \<times> world) option \<Rightarrow> world
     \<Rightarrow> (error + json) \<times> world" where
  "verifyIntegrity P masterKey dbFilePath checkpointFn w =
     (let metaRaw = readMetaFile w
      in if \<not> truthy metaRaw
         then (Inl (IntegrityError (js ''Metadata file (meta.json) is missing'')), w)
         else
           (case json_parse P (the metaRaw) of
              None \<Rightarrow> (Inl (IntegrityError (js ''Metadata file (meta.json) is corrupted'')), w)
            | Some meta \<Rightarrow>
                (case member meta ''version'' of
                   Inl e \<Rightarrow> (Inl e, w)
                 | Inr version \<Rightarrow>
                     if version \<noteq> Some STORE_VERSION
                     then (Inl (IntegrityError
                                 (js ''Unsupported store version: expected \"'' @ STORE_VERSION
                                    @ js ''\", got \"'' @ shown version @ js ''\"'')), w)
                     else
                       and_then (computeIntegrityHmac P masterKey dbFilePath checkpointFn w)
                         (\<lambda>computedHmac w1.
                            (case member meta ''integrity'' of
                               Inl e \<Rightarrow> (Inl e, w1)
                             | Inr integrity \<Rightarrow>
                                 if Some computedHmac \<noteq> integrity
                                 then (Inl (IntegrityError integrity_default), w1)
                                 else (Inr meta, w1))))))"

definition updateIntegrity ::
  "prims \<Rightarrow> bytes \<Rightarrow> jsstring \<Rightarrow> jsstring \<Rightarrow> (world \<Rightarrow> (error + unit) \<times> world) option \<Rightarrow> world
     \<Rightarrow> (error + unit) \<times> world" where
  "updateIntegrity P masterKey dbFilePath salt_hex checkpointFn w =
     and_then (computeIntegrityHmac P masterKey dbFilePath checkpointFn w)
       (\<lambda>integrity w1.
          (let meta = JObject [(js ''version'', STORE_VERSION), (js ''salt'', salt_hex),
                               (js ''integrity'', integrity)]
           in writeMetaFile (json_stringify P meta) w1))"

section \<open>engine.ts\<close>

text \<open>
  A \<open>Map\<close> keeps its keys in insertion order: \<open>map_set\<close> overwrites in place or
  appends, \<open>map_delete\<close> removes.
\<close>

fun map_set :: "'k \<Rightarrow> 'v \<Rightarrow> ('k \<times> 'v) list \<Rightarrow> ('k \<times> 'v) list" where
  "map_set k v [] = [(k, v)]"
| "map_set k v (p # ps) = (if fst p = k then (k, v) # ps else p # map_set k v ps)"

definition map_delete :: "'k \<Rightarrow> ('k \<times> 'v) list \<Rightarrow> ('k \<times> 'v) list" where
  "map_delete k m = filter (\<lambda>p. fst p \<noteq> k) m"

definition map_has :: "'k \<Rightarrow> ('k \<times> 'v) list \<Rightarrow> bool" where
  "map_has k m = (k \<in> fst ` set m)"

record SecretsEngine =
  masterKey :: bytes
  store :: jsstring
  dirPath :: jsstring
  salt :: jsstring
  keyIndex :: "(jsstring \<times> jsstring) list"
  closed :: bool

type_synonym 'a outcome = "(error + 'a) \<times> SecretsEngine \<times> world"

definition ensureOpen :: "SecretsEngine \<Rightarrow> error + unit" where
  "ensureOpen e =
     (if closed e then Inl (JsError (js ''SecretsEngine instance is closed'')) else Inr ())"

definition hashKey :: "prims \<Rightarrow> SecretsEngine \<Rightarrow> jsstring \<Rightarrow> jsstring" where
  "hashKey P e key = hmac P (masterKey e) (utf8_encode key)"

fun buildKeyIndex ::
  "prims \<Rightarrow> bytes \<Rightarrow> EncryptedEntry list \<Rightarrow> (jsstring \<times> jsstring) list
     \<Rightarrow> error + (jsstring \<times> jsstring) list" where
  "buildKeyIndex P mk [] index = Inr index"
| "buildKeyIndex P mk (entry # entries) index =
     (let keyEncBuf = key_enc entry;
          keyIv = take 12 keyEncBuf;
          keyCipher = drop 12 keyEncBuf
      in case decrypt P mk keyIv keyCipher (Some (key_hash entry)) of
           Inr keyName \<Rightarrow> buildKeyIndex P mk entries (map_set (key_hash entry) keyName index)
         | Inl (DecryptionError m h) \<Rightarrow> buildKeyIndex P mk entries index
         | Inl other \<Rightarrow> Inl other)"

definition resolveSalt :: "prims \<Rightarrow> world \<Rightarrow> (jsstring \<times> bool) \<times> world" where
  "resolveSalt P w =
     (let metaRaw = readMetaFile w;
          found =
            (if truthy metaRaw then
               (case json_parse P (the metaRaw) of
                  None \<Rightarrow> None
                | Some meta \<Rightarrow>
                    (case member meta ''salt'' of
                       Inl thrown \<Rightarrow> None
                     | Inr s \<Rightarrow> if truthy s then s else None))
             else None)
      in case found of
           Some s \<Rightarrow> ((s, False), w)
         | None \<Rightarrow> (case generateSalt w of (fresh, w') \<Rightarrow> ((toString_hex fresh, True), w')))"

definition open_body ::
  "prims \<Rightarrow> bytes \<Rightarrow> jsstring \<Rightarrow> jsstring \<Rightarrow> jsstring \<Rightarrow> bool \<Rightarrow> world
     \<Rightarrow> (error + SecretsEngine) \<times> world" where
  "open_body P mk dbPath dir salt_hex isNewStore w =
     and_then
       (if \<not> isNewStore
        then and_then (verifyIntegrity P mk dbPath (Some checkpoint) w) (\<lambda>meta w1. (Inr (), w1))
        else (Inr (), w))
       (\<lambda>u w1.
          and_then (buildKeyIndex P mk (findAll w1) [], w1)
            (\<lambda>index w2.
               (let engine = \<lparr>masterKey = mk, store = dbPath, dirPath = dir, salt = salt_hex,
                              keyIndex = index, closed = False\<rparr>
                in and_then
                     (if isNewStore
                      then updateIntegrity P mk dbPath salt_hex (Some checkpoint) w2
                      else (Inr (), w2))
                     (\<lambda>u w3. (Inr engine, w3)))))"

definition engine_open :: "prims \<Rightarrow> OpenOptions option \<Rightarrow> world \<Rightarrow> (error + SecretsEngine) \<times> world" where
  "engine_open P options w =
     and_then (resolveStoragePath P (process w) options, w)
       (\<lambda>dir w0.
          and_then (ensureDirectory dir w0)
            (\<lambda>u w1.
               and_then (ensureKeyfile P dir w1)
                 (\<lambda>keyfile_bytes w2.
                    (case resolveSalt P w2 of
                       ((salt_hex, isNewStore), w3) \<Rightarrow>
                         (let machineId = getMachineIdentity (process w3);
                              mk = deriveMasterKey P machineId keyfile_bytes (from_hex salt_hex)
                          in and_then (SecretStore_open P dir w3)
                               (\<lambda>u w4.
                                  (case open_body P mk (path_join P dir DB_NAME) dir salt_hex
                                          isNewStore w4 of
                                     (Inl e, w5) \<Rightarrow> (Inl e, SecretStore_close w5)
                                   | (Inr engine, w5) \<Rightarrow> (Inr engine, w5))))))))"

definition engine_get :: "prims \<Rightarrow> jsstring \<Rightarrow> SecretsEngine \<times> world \<Rightarrow> (jsstring option) outcome" where
  "engine_get P key = (\<lambda>(e, w).
     (case ensureOpen e of
        Inl err \<Rightarrow> (Inl err, e, w)
      | Inr u \<Rightarrow>
          (let keyHash = hashKey P e key
           in case findByHash keyHash w of
                None \<Rightarrow> (Inr None, e, w)
              | Some entry \<Rightarrow>
                  (map_sum id Some (decrypt P (masterKey e) (iv entry) (cipher entry) (Some keyHash)),
                   e, w))))"

definition engine_getOrThrow :: "prims \<Rightarrow> jsstring \<Rightarrow> SecretsEngine \<times> world \<Rightarrow> jsstring outcome" where
  "engine_getOrThrow P key = (\<lambda>(e, w).
     (case engine_get P key (e, w) of
        (Inl err, s) \<Rightarrow> (Inl err, s)
      | (Inr None, s) \<Rightarrow> (Inl (KeyNotFoundError key), s)
      | (Inr (Some v), s) \<Rightarrow> (Inr v, s)))"

definition engine_set :: "prims \<Rightarrow> jsstring \<Rightarrow> jsstring \<Rightarrow> SecretsEngine \<times> world \<Rightarrow> unit outcome" where
  "engine_set P key v = (\<lambda>(e, w).
     (case ensureOpen e of
        Inl err \<Rightarrow> (Inl err, e, w)
      | Inr u \<Rightarrow>
          (let keyHash = hashKey P e key
           in case encrypt P (masterKey e) key w of
                (encryptedKey, w1) \<Rightarrow>
                  (case encrypt P (masterKey e) v w1 of
                     (encryptedValue, w2) \<Rightarrow>
                       (let keyEncPacked = payload_iv encryptedKey @ payload_ciphertext encryptedKey;
                            w3 = upsert keyHash keyEncPacked (payload_iv encryptedValue)
                                   (payload_ciphertext encryptedValue) w2;
                            e' = e\<lparr>keyIndex := map_set keyHash key (keyIndex e)\<rparr>
                        in case updateIntegrity P (masterKey e') (store e') (salt e') None w3 of
                             (r, w4) \<Rightarrow> (r, e', w4))))))"

definition engine_has :: "prims \<Rightarrow> jsstring \<Rightarrow> SecretsEngine \<times> world \<Rightarrow> bool outcome" where
  "engine_has P key = (\<lambda>(e, w).
     (case ensureOpen e of
        Inl err \<Rightarrow> (Inl err, e, w)
      | Inr u \<Rightarrow> (Inr (map_has (hashKey P e key) (keyIndex e)), e, w)))"

definition engine_delete :: "prims \<Rightarrow> jsstring \<Rightarrow> SecretsEngine \<times> world \<Rightarrow> bool outcome" where
  "engine_delete P key = (\<lambda>(e, w).
     (case ensureOpen e of
        Inl err \<Rightarrow> (Inl err, e, w)
      | Inr u \<Rightarrow>
          (let keyHash = hashKey P e key
           in case deleteByHash keyHash w of
                (deleted, w1) \<Rightarrow>
                  if deleted then
                    (let e' = e\<lparr>keyIndex := map_delete keyHash (keyIndex e)\<rparr>
                     in case updateIntegrity P (masterKey e') (store e') (salt e') None w1 of
                          (Inl err, w2) \<Rightarrow> (Inl err, e', w2)
                        | (Inr u, w2) \<Rightarrow> (Inr deleted, e', w2))
                  else (Inr deleted, e, w1))))"

definition engine_keys :: "jsstring option \<Rightarrow> SecretsEngine \<times> world \<Rightarrow> (jsstring list) outcome" where
  "engine_keys pattern = (\<lambda>(e, w).
     (case ensureOpen e of
        Inl err \<Rightarrow> (Inl err, e, w)
      | Inr u \<Rightarrow>
          (let allKeys = map snd (keyIndex e)
           in if \<not> truthy pattern then (Inr (sort allKeys), e, w)
              else (map_sum id sort (filterKeys allKeys (the pattern)), e, w))))"

text \<open>
  \<open>removeDirectoryContents\<close>, where no entry is busy: the files and the directory are
  gone after the first attempt.
\<close>

definition removeDirectoryContents :: "world \<Rightarrow> world" where
  "removeDirectoryContents w =
     w\<lparr>dir_mode := None, keyfile := None, metafile := None, db_file := None, db_rows := [],
       trace := trace w @ [RemoveDirectory]\<rparr>"

definition engine_destroy :: "SecretsEngine \<times> world \<Rightarrow> unit outcome" where
  "engine_destroy = (\<lambda>(e, w).
     (case ensureOpen e of
        Inl err \<Rightarrow> (Inl err, e, w)
      | Inr u \<Rightarrow>
          (case checkpoint w of
             (Inl err, w1) \<Rightarrow> (Inl err, e, w1)
           | (Inr u, w1) \<Rightarrow>
               (let w2 = SecretStore_close w1;
                    e' = e\<lparr>keyIndex := [], closed := True\<rparr>
                in (Inr (), e', removeDirectoryContents w2)))))"

definition engine_close :: "prims \<Rightarrow> SecretsEngine \<times> world \<Rightarrow> unit outcome" where
  "engine_close P = (\<lambda>(e, w).
     (if \<not> closed e then
        (case checkpoint w of
           (Inl err, w1) \<Rightarrow> (Inl err, e, w1)
         | (Inr u, w1) \<Rightarrow>
             (case updateIntegrity P (masterKey e) (store e) (salt e) None w1 of
                (Inl err, w2) \<Rightarrow> (Inl err, e, w2)
              | (Inr u, w2) \<Rightarrow>
                  (Inr (), e\<lparr>keyIndex := [], closed := True\<rparr>, SecretStore_close w2)))
      else (Inr (), e, w)))"

definition engine_size :: "SecretsEngine \<times> world \<Rightarrow> nat outcome" where
  "engine_size = (\<lambda>(e, w).
     (case ensureOpen e of
        Inl err \<Rightarrow> (Inl err, e, w)
      | Inr u \<Rightarrow> (Inr (length (keyIndex e)), e, w)))"

definition engine_storagePath :: "SecretsEngine \<times> world \<Rightarrow> jsstring outcome" where
  "engine_storagePath = (\<lambda>(e, w). (Inr (dirPath e), e, w))"

section \<open>A small machine for concrete runs\<close>

text \<open>
  The theorems below hold for every record of primitives.  To run the engine on
  concrete inputs, \<open>demo_prims\<close> fills the record with stand-ins that are easy to
  follow by hand: the cipher reverses the plaintext and appends a fixed tag sixteen
  bytes long, the hash functions return their input, and a meta document is written
  as \<open>{key=value;key=value;\<close>.
\<close>

definition demo_tag :: bytes where
  "demo_tag = replicate 16 0xAA"

fun demo_fields :: "jsstring \<Rightarrow> jsstring \<Rightarrow> bool \<Rightarrow> jsstring \<Rightarrow> (jsstring \<times> jsstring) list" where
  "demo_fields k v in_value [] = []"
| "demo_fields k v in_value (c # s) =
     (if c = 0x3B then (k, v) # demo_fields [] [] False s
      else if c = 0x3D \<and> \<not> in_value then demo_fields k [] True s
      else if in_value then demo_fields k (v @ [c]) True s
      else demo_fields (k @ [c]) v False s)"

definition demo_json_parse :: "jsstring \<Rightarrow> json option" where
  "demo_json_parse s =
     (case s of
        [] \<Rightarrow> None
      | c # rest \<Rightarrow>
          if c = 0x7B then Some (JObject (demo_fields [] [] False rest))
          else if s = js ''null'' then Some JNull
          else if s = js ''0'' then Some JOther
          else None)"

definition demo_json_stringify :: "json \<Rightarrow> jsstring" where
  "demo_json_stringify doc =
     (case doc of
        JObject kvs \<Rightarrow> 0x7B # concat (map (\<lambda>(k, v). k @ [0x3D] @ v @ [0x3B]) kvs)
      | JNull \<Rightarrow> js ''null''
      | JOther \<Rightarrow> js ''0'')"

definition demo_prims :: prims where
  "demo_prims =
     \<lparr>aead_seal = (\<lambda>key iv_bytes plain. (rev plain, demo_tag)),
      aead_open = (\<lambda>key iv_bytes encrypted tag.
                     if tag = demo_tag then Inr (rev encrypted)
                     else Inl (js ''Unsupported state or unable to authenticate data'')),
      hmac_sha256 = (\<lambda>key data. data),
      sha256_digest = (\<lambda>data. data),
      scrypt = (\<lambda>password salt_bytes keylen N r p. replicate keylen 0x01),
      json_parse = demo_json_parse,
      json_stringify = demo_json_stringify,
      path_join = (\<lambda>a b. a @ js ''/'' @ b),
      db_image = (\<lambda>rows. concat (map (\<lambda>r. key_enc r @ iv r @ cipher r) rows))\<rparr>"

definition demo_env :: environment where
  "demo_env =
     \<lparr>win32 = False, XDG_CONFIG_HOME = Some (js ''/x''), APPDATA = None, homedir = js ''/h'',
      hostname = js ''host'', username = js ''me'', networkInterfaces = []\<rparr>"

text \<open>
  An empty machine: no storage directory yet, umask \<open>0o022\<close>, and a log that never
  grows enough for SQLite to checkpoint by itself.
\<close>

definition demo_world :: world where
  "demo_world =
     \<lparr>process = demo_env, umask = octal [0, 2, 2], dir_mode = None, keyfile = None,
      metafile = None, db_mode = 0, db_file = None, db_rows = [], mkdir_fault = None,
      db_fault = None, checkpoint_fault = None, wal_autocheckpoint = (\<lambda>n. False),
      entropy = (\<lambda>n. 7), entropy_used = 0,
      clock = 1000, trace = []\<rparr>"

definition demo_engine :: SecretsEngine where
  "demo_engine =
     \<lparr>masterKey = replicate 32 0x01, store = js ''/s/store.db'', dirPath = js ''/s'',
      salt = js ''00'', keyIndex = [], closed = False\<rparr>"

text \<open>The machine after a store was created in \<open>/s\<close> and nothing stored.\<close>

definition demo_store :: world where
  "demo_store =
     demo_world\<lparr>dir_mode := Some mode_directory,
                keyfile := Some (mode_keyfile, replicate 32 0x07),
                metafile := Some (mode_meta, js ''{version=1;salt=00;integrity=;''),
                db_mode := octal [6, 4, 4], db_file := Some []\<rparr>"

section \<open>Notions the properties are stated with\<close>

text \<open>The error \<open>verifyPermission\<close> raises for a mode that differs from the expected one.\<close>

definition insecure :: "jsstring \<Rightarrow> mode \<Rightarrow> mode \<Rightarrow> jsstring \<Rightarrow> error" where
  "insecure label expectedMode st_mode filePath =
     SecurityError (js ''Insecure '' @ label @ js '' permissions'')
       (formatOctal expectedMode) (formatOctal (st_mode AND octal [7, 7, 7])) filePath"

text \<open>The error \<open>ensureOpen\<close> raises.\<close>

definition closed_error :: error where
  "closed_error = JsError (js ''SecretsEngine instance is closed'')"

text \<open>
  What the decipher makes of a buffer of at least sixteen bytes: the last sixteen are
  the tag.  \<open>decryption_message\<close> is the message of a \<open>DecryptionError\<close>, from sixteen
  characters of the key hash and an inner message.
\<close>

definition too_short :: jsstring where
  "too_short = js ''Ciphertext too short to contain auth tag''"

definition decipher :: "prims \<Rightarrow> bytes \<Rightarrow> bytes \<Rightarrow> bytes \<Rightarrow> jsstring + bytes" where
  "decipher P mk i ct =
     aead_open P mk i (take (length ct - 16) ct) (drop (length ct - 16) ct)"

definition decryption_message :: "jsstring option \<Rightarrow> jsstring \<Rightarrow> jsstring" where
  "decryption_message prefix16 m =
     js ''Decryption failed''
       @ (case prefix16 of
            None \<Rightarrow> []
          | Some h \<Rightarrow> if h = [] then [] else js '' (entry: '' @ h @ [ellipsis] @ js '')'')
       @ js '': '' @ m"

text \<open>
  The integrity seal of a main database file holding the given rows, the text of
  the meta document, the mode \<open>writeMetaFile\<close> leaves on the meta file, and the error
  \<open>computeIntegrityHmac\<close> makes of a failed checkpoint.
\<close>

definition seal :: "prims \<Rightarrow> bytes \<Rightarrow> EncryptedEntry list \<Rightarrow> jsstring" where
  "seal P mk main_rows = hmac P mk (sha256 P (db_image P main_rows))"

definition meta_text :: "prims \<Rightarrow> jsstring \<Rightarrow> jsstring \<Rightarrow> jsstring" where
  "meta_text P salt_hex integrity =
     json_stringify P (JObject [(js ''version'', STORE_VERSION), (js ''salt'', salt_hex),
                                (js ''integrity'', integrity)])"

definition written_mode :: "world \<Rightarrow> mode" where
  "written_mode w =
     (if \<not> win32 (process w) then mode_meta
      else (case metafile w of None \<Rightarrow> mode_meta AND NOT (umask w) | Some (m, old) \<Rightarrow> m))"

definition checkpoint_failed :: "jsstring \<Rightarrow> error" where
  "checkpoint_failed message = IntegrityError (js ''Integrity checkpoint failed: '' @ message)"

text \<open>The index \<open>buildKeyIndex\<close> builds from an empty one (it always returns).\<close>

definition built_index :: "prims \<Rightarrow> bytes \<Rightarrow> EncryptedEntry list \<Rightarrow> (jsstring \<times> jsstring) list" where
  "built_index P mk entries = projr (buildKeyIndex P mk entries [])"

text \<open>The names \<open>keys\<close> lists: all of them without a pattern or with the empty one.\<close>

definition listed :: "jsstring option \<Rightarrow> jsstring \<Rightarrow> bool" where
  "listed pattern name = (\<not> truthy pattern \<or> matchGlob (the pattern) name = Inr True)"

text \<open>The error \<open>verifyIntegrity\<close> has for a meta file that does not parse.\<close>

definition corrupted_error :: error where
  "corrupted_error = IntegrityError (js ''Metadata file (meta.json) is corrupted'')"

definition fresh_salt :: "world \<Rightarrow> jsstring" where
  "fresh_salt w = toString_hex (fst (generateSalt w))"

text \<open>Further concrete inputs.\<close>

definition demo_options :: "OpenOptions option" where
  "demo_options = Some \<lparr>opt_path = Some (js ''/s''), opt_location = None\<rparr>"

definition demo_names :: SecretsEngine where
  "demo_names = demo_engine\<lparr>keyIndex := [(js ''aa'', [0xFF5E]), (js ''bb'', [0xD83D, 0xDE00])]\<rparr>"

definition demo_row :: EncryptedEntry where
  "demo_row = \<lparr>key_hash = toString_hex [0x6B], key_enc = replicate 12 7 @ [0x6B] @ demo_tag,
               iv = replicate 12 7, cipher = [0x76] @ demo_tag, created = 1000, updated = 1000\<rparr>"

text \<open>The machine with the secret \<open>k\<close> stored but not yet checkpointed.\<close>

definition demo_stored :: world where
  "demo_stored = demo_store\<lparr>db_rows := [demo_row]\<rparr>"

text \<open>The store of \<open>demo_store\<close> with a meta file that is not JSON.\<close>

definition demo_corrupted :: world where
  "demo_corrupted = demo_store\<lparr>metafile := Some (mode_meta, js ''not json'')\<rparr>"

text \<open>
  The events of one statement that writes: the statement, and a checkpoint if SQLite
  runs one at its commit.  \<open>verification_events\<close> are the traces that opening an
  existing store can leave.
\<close>

definition commit_events :: "world \<Rightarrow> io_event \<Rightarrow> io_event list" where
  "commit_events w statement =
     statement # (if wal_autocheckpoint w (Suc (length (trace w))) then [AutoCheckpoint] else [])"

definition verification_events :: "io_event list set" where
  "verification_events =
     {[], [CloseDatabase], [Checkpoint, ReadDatabaseFile],
      [Checkpoint, ReadDatabaseFile, CloseDatabase]}"

text \<open>The store of \<open>demo_store\<close> where SQLite checkpoints at every commit.\<close>

definition demo_busy :: world where
  "demo_busy = demo_store\<lparr>wal_autocheckpoint := (\<lambda>n. True)\<rparr>"

text \<open>
  The mode of the storage directory after \<open>mkdir(dirPath, {recursive: true, mode: 0o700})\<close>:
  the mode it had, or \<open>0o700\<close> less the umask when \<open>mkdir\<close> created it.
\<close>

definition created_mode :: "world \<Rightarrow> mode" where
  "created_mode w = (case dir_mode w of None \<Rightarrow> mode_directory AND NOT (umask w) | Some m \<Rightarrow> m)"

text \<open>The store of \<open>demo_store\<close> with the meta file at mode \<open>0o644\<close>.\<close>

definition demo_loose :: world where
  "demo_loose = demo_store\<lparr>metafile := Some (octal [6, 4, 4], js ''{version=1;salt=00;integrity=;'')\<rparr>"

section \<open>Path resolution: the location "home"\<close>

text \<open>
  C10.  \<open>resolveStoragePath\<close> does not look at the location \<open>"home"\<close>: in every
  environment \<open>{ location: "home" }\<close> resolves to what no options at all resolve to.
  In particular, off Windows and with \<open>XDG_CONFIG_HOME\<close> set to a non-empty value
  \<open>x\<close>, it resolves to \<open>x/secrets-engine\<close>, not to the directory under the home
  directory.
\<close>

theorem resolveStoragePath_home_ignored:
  "resolveStoragePath P env (Some \<lparr>opt_path = None, opt_location = Some Home\<rparr>)
     = resolveStoragePath P env None
   \<and> (\<not> win32 env \<longrightarrow> XDG_CONFIG_HOME env = Some x \<longrightarrow> x \<noteq> [] \<longrightarrow>
        resolveStoragePath P env (Some \<lparr>opt_path = None, opt_location = Some Home\<rparr>)
          = Inr (path_join P x (js ''secrets-engine'')))"
  by (simp add: resolveStoragePath_def options_path_def options_location_def truthy_def)

theorem resolveStoragePath_home_ignored_witness:
  "\<not> win32 demo_env \<and> XDG_CONFIG_HOME demo_env = Some (js ''/x'') \<and> js ''/x'' \<noteq> []
   \<and> resolveStoragePath demo_prims demo_env (Some \<lparr>opt_path = None, opt_location = Some Home\<rparr>)
        = resolveStoragePath demo_prims demo_env None
   \<and> resolveStoragePath demo_prims demo_env (Some \<lparr>opt_path = None, opt_location = Some Home\<rparr>)
        = Inr (js ''/x/secrets-engine'')"
  using resolveStoragePath_home_ignored [of demo_prims demo_env "js ''/x''"]
  by (simp add: demo_env_def demo_prims_def js_def resolveStoragePath_def options_path_def
      options_location_def truthy_def)

section \<open>Permission verification\<close>

text \<open>
  The two places where \<open>verifyPermission\<close> is called: \<open>ensureDirectory\<close> and
  \<open>ensureKeyfile\<close>.  An existing directory and an existing keyfile pass exactly when
  their mode bits are \<open>0o700\<close> and \<open>0o400\<close>.
\<close>

lemma ensureDirectory_existing:
  assumes "\<not> win32 (process w)" and "mkdir_fault w = None" and "dir_mode w = Some m"
  shows "ensureDirectory dir w =
           (if m AND octal [7, 7, 7] \<noteq> mode_directory
            then (Inl (insecure (js ''directory'') mode_directory m dir), w) else (Inr (), w))"
  using assms by (simp add: ensureDirectory_def verifyPermission_def insecure_def stat_mode_def)

lemma ensureKeyfile_existing:
  assumes "\<not> win32 (process w)" and "keyfile w = Some (m, content)"
  shows "ensureKeyfile P dir w =
           (if m AND octal [7, 7, 7] \<noteq> mode_keyfile
            then (Inl (insecure (js ''keyfile'') mode_keyfile m (path_join P dir KEYFILE_NAME)), w)
            else (Inr content, w))"
  using assms by (simp add: ensureKeyfile_def verifyPermission_def insecure_def stat_mode_def
      readFile_keyfile_def isFileNotFoundError_def Let_def)

section \<open>What the parts of the engine do\<close>

lemma and_then_simps [simp]:
  "and_then (Inl e, s) f = (Inl e, s)"
  "and_then (Inr x, s) f = f x s"
  by (simp_all add: and_then_def)

lemma checkpoint_ok:
  "checkpoint_fault w = None \<Longrightarrow>
     checkpoint w = (Inr (), w\<lparr>db_file := Some (db_rows w), trace := trace w @ [Checkpoint]\<rparr>)"
  by (simp add: checkpoint_def)

lemma checkpoint_fails:
  "checkpoint_fault w = Some message \<Longrightarrow> checkpoint w = (Inl (JsError message), w)"
  by (simp add: checkpoint_def)

lemma writeMetaFile_eq:
  "writeMetaFile content w =
     (Inr (), w\<lparr>metafile := Some (written_mode w, content),
                 trace := trace w @ [WriteMetaFile content]\<rparr>)"
  by (simp add: writeMetaFile_def written_mode_def Let_def split: option.splits)

lemma written_mode_frame [simp]:
  "written_mode (w\<lparr>trace := t\<rparr>) = written_mode w"
  "written_mode (w\<lparr>db_file := f\<rparr>) = written_mode w"
  "written_mode (w\<lparr>db_rows := r\<rparr>) = written_mode w"
  "written_mode (w\<lparr>entropy_used := n\<rparr>) = written_mode w"
  by (simp_all add: written_mode_def split: option.splits)

lemma compute_plain_ok:
  "db_file w = Some main_rows \<Longrightarrow>
     computeIntegrityHmac P mk dbp None w =
       (Inr (seal P mk main_rows), w\<lparr>trace := trace w @ [ReadDatabaseFile]\<rparr>)"
  by (simp add: computeIntegrityHmac_def readFile_database_def seal_def)

lemma compute_plain_fails:
  "db_file w = None \<Longrightarrow>
     computeIntegrityHmac P mk dbp None w = (Inl (ErrnoException (js ''ENOENT'') dbp), w)"
  by (simp add: computeIntegrityHmac_def readFile_database_def)

lemma compute_checkpoint_ok:
  "checkpoint_fault w = None \<Longrightarrow>
     computeIntegrityHmac P mk dbp (Some checkpoint) w =
       (Inr (seal P mk (db_rows w)),
        w\<lparr>db_file := Some (db_rows w), trace := trace w @ [Checkpoint, ReadDatabaseFile]\<rparr>)"
  by (simp add: computeIntegrityHmac_def readFile_database_def seal_def checkpoint_def)

lemma compute_checkpoint_fails:
  "checkpoint_fault w = Some message \<Longrightarrow>
     computeIntegrityHmac P mk dbp (Some checkpoint) w = (Inl (checkpoint_failed message), w)"
  by (simp add: computeIntegrityHmac_def checkpoint_def checkpoint_failed_def)

lemma update_plain_ok:
  "db_file w = Some main_rows \<Longrightarrow>
     updateIntegrity P mk dbp s None w =
       (Inr (),
        w\<lparr>metafile := Some (written_mode w, meta_text P s (seal P mk main_rows)),
          trace := trace w @ [ReadDatabaseFile,
                              WriteMetaFile (meta_text P s (seal P mk main_rows))]\<rparr>)"
  by (simp add: updateIntegrity_def compute_plain_ok writeMetaFile_eq meta_text_def Let_def)

lemma update_plain_fails:
  "db_file w = None \<Longrightarrow>
     updateIntegrity P mk dbp s None w = (Inl (ErrnoException (js ''ENOENT'') dbp), w)"
  by (simp add: updateIntegrity_def compute_plain_fails)

lemma update_checkpoint_ok:
  "checkpoint_fault w = None \<Longrightarrow>
     updateIntegrity P mk dbp s (Some checkpoint) w =
       (Inr (),
        w\<lparr>db_file := Some (db_rows w),
          metafile := Some (written_mode w, meta_text P s (seal P mk (db_rows w))),
          trace := trace w @ [Checkpoint, ReadDatabaseFile,
                              WriteMetaFile (meta_text P s (seal P mk (db_rows w)))]\<rparr>)"
  by (simp add: updateIntegrity_def compute_checkpoint_ok writeMetaFile_eq meta_text_def Let_def)

lemma update_checkpoint_fails:
  "checkpoint_fault w = Some message \<Longrightarrow>
     updateIntegrity P mk dbp s (Some checkpoint) w = (Inl (checkpoint_failed message), w)"
  by (simp add: updateIntegrity_def compute_checkpoint_fails)

lemma ensureDirectory_frame:
  "snd (ensureDirectory dir w) = w\<lparr>dir_mode := dir_mode (snd (ensureDirectory dir w))\<rparr>"
  by (simp add: ensureDirectory_def Let_def)

lemma ensureKeyfile_frame:
  "snd (ensureKeyfile P dir w) =
     w\<lparr>keyfile := keyfile (snd (ensureKeyfile P dir w)),
       entropy_used := entropy_used (snd (ensureKeyfile P dir w))\<rparr>"
  by (simp add: ensureKeyfile_def createKeyfile_def randomBytes_def Let_def
      split: sum.splits prod.splits)

lemma SecretStore_open_frame:
  "snd (SecretStore_open P dir w) =
     w\<lparr>db_file := db_file (snd (SecretStore_open P dir w)),
       db_rows := db_rows (snd (SecretStore_open P dir w)),
       db_mode := db_mode (snd (SecretStore_open P dir w))\<rparr>"
  by (simp add: SecretStore_open_def Let_def)

lemma engine_open_Inr:
  assumes "engine_open P options w = (Inr e, w')"
  obtains dir w1 kf w2 s isNew w3 w4 where
    "resolveStoragePath P (process w) options = Inr dir"
    "ensureDirectory dir w = (Inr (), w1)"
    "ensureKeyfile P dir w1 = (Inr kf, w2)"
    "resolveSalt P w2 = ((s, isNew), w3)"
    "SecretStore_open P dir w3 = (Inr (), w4)"
    "open_body P (deriveMasterKey P (getMachineIdentity (process w3)) kf (from_hex s))
       (path_join P dir DB_NAME) dir s isNew w4 = (Inr e, w')"
  using assms
  by (auto simp: engine_open_def and_then_def Let_def split: sum.splits prod.splits)

lemma resolveSalt_unparseable:
  assumes "metafile w = Some (m, raw)" and "json_parse P raw = None"
  shows "resolveSalt P w = ((fresh_salt w, True), snd (generateSalt w))"
  using assms
  by (simp add: resolveSalt_def readMetaFile_def fresh_salt_def Let_def split: prod.splits)

lemma resolveSalt_flag:
  "metafile w2 = metafile w \<Longrightarrow> snd (fst (resolveSalt P w2)) = snd (fst (resolveSalt P w))"
  by (auto simp add: resolveSalt_def readMetaFile_def Let_def
      split: prod.splits option.splits sum.splits if_splits)

lemma resolveSalt_existing:
  "\<not> snd (fst (resolveSalt P w)) \<Longrightarrow> snd (resolveSalt P w) = w"
  by (auto simp add: resolveSalt_def readMetaFile_def Let_def
      split: prod.splits option.splits sum.splits if_splits)

lemma resolveSalt_new:
  "snd (fst (resolveSalt P w)) \<Longrightarrow> resolveSalt P w = ((fresh_salt w, True), snd (generateSalt w))"
  by (auto simp add: resolveSalt_def readMetaFile_def fresh_salt_def Let_def
      split: prod.splits option.splits sum.splits if_splits)

lemma decrypt_error:
  "decrypt P mk i ct kh = Inl err \<Longrightarrow> \<exists>m. err = DecryptionError m kh"
  by (auto simp: decrypt_def Let_def split: if_splits sum.splits)

lemma buildKeyIndex_returns:
  "\<exists>index'. buildKeyIndex P mk entries index = Inr index'"
proof (induction entries arbitrary: index)
  case Nil
  then show ?case by simp
next
  case (Cons entry entries)
  show ?case
  proof (cases "decrypt P mk (take 12 (key_enc entry)) (drop 12 (key_enc entry)) (Some (key_hash entry))")
    case (Inl err)
    with decrypt_error [OF Inl] Cons.IH [of index] show ?thesis
      by (auto simp: Let_def)
  next
    case (Inr keyName)
    with Cons.IH [of "map_set (key_hash entry) keyName index"] show ?thesis
      by (auto simp: Let_def)
  qed
qed

lemma buildKeyIndex_built: "buildKeyIndex P mk entries [] = Inr (built_index P mk entries)"
  using buildKeyIndex_returns [of P mk entries "[]"] by (auto simp: built_index_def)

lemma open_body_new_ok:
  assumes "checkpoint_fault w = None"
  shows "open_body P mk dbp dir s True w =
           (Inr \<lparr>masterKey = mk, store = dbp, dirPath = dir, salt = s,
                 keyIndex = built_index P mk (db_rows w), closed = False\<rparr>,
            w\<lparr>db_file := Some (db_rows w),
              metafile := Some (written_mode w, meta_text P s (seal P mk (db_rows w))),
              trace := trace w @ [Checkpoint, ReadDatabaseFile,
                                  WriteMetaFile (meta_text P s (seal P mk (db_rows w)))]\<rparr>)"
  using assms
  by (simp add: open_body_def findAll_def buildKeyIndex_built update_checkpoint_ok Let_def)

lemma open_body_new_fails:
  assumes "checkpoint_fault w = Some message"
  shows "open_body P mk dbp dir s True w = (Inl (checkpoint_failed message), w)"
  using assms
  by (simp add: open_body_def findAll_def buildKeyIndex_built update_checkpoint_fails Let_def)

lemma open_body_existing:
  assumes "open_body P mk dbp dir s False w = (Inr e, w')"
  shows "\<exists>meta. verifyIntegrity P mk dbp (Some checkpoint) w = (Inr meta, w')"
  using assms
  by (cases "verifyIntegrity P mk dbp (Some checkpoint) w"; cases "fst (verifyIntegrity P mk dbp (Some checkpoint) w)")
     (auto simp: open_body_def findAll_def buildKeyIndex_built Let_def)

lemma ensureDirectory_keeps:
  assumes "ensureDirectory dir w = (r, w1)"
  shows "metafile w1 = metafile w \<and> trace w1 = trace w \<and> entropy w1 = entropy w"
  using assms by (auto simp: ensureDirectory_def Let_def split: if_splits)

lemma ensureKeyfile_keeps:
  assumes "ensureKeyfile P dir w = (r, w1)"
  shows "metafile w1 = metafile w \<and> trace w1 = trace w \<and> entropy w1 = entropy w"
  using assms
  by (auto simp: ensureKeyfile_def createKeyfile_def randomBytes_def Let_def
      split: if_splits sum.splits prod.splits)

lemma SecretStore_open_keeps:
  assumes "SecretStore_open P dir w = (r, w1)"
  shows "metafile w1 = metafile w \<and> trace w1 = trace w \<and> checkpoint_fault w1 = checkpoint_fault w"
  using assms by (auto simp: SecretStore_open_def Let_def split: if_splits)

lemma resolveSalt_keeps:
  assumes "resolveSalt P w = (r, w1)"
  shows "metafile w1 = metafile w \<and> trace w1 = trace w \<and> checkpoint_fault w1 = checkpoint_fault w
         \<and> db_rows w1 = db_rows w \<and> db_file w1 = db_file w \<and> db_fault w1 = db_fault w"
  using assms
  by (auto simp: resolveSalt_def generateSalt_def randomBytes_def Let_def
      split: if_splits sum.splits prod.splits option.splits)


section \<open>The closed-instance guard\<close>

lemma closed_ops:
  assumes "closed e"
  shows "engine_get P k (e, w) = (Inl closed_error, e, w)"
    and "engine_getOrThrow P k (e, w) = (Inl closed_error, e, w)"
    and "engine_set P k v (e, w) = (Inl closed_error, e, w)"
    and "engine_has P k (e, w) = (Inl closed_error, e, w)"
    and "engine_delete P k (e, w) = (Inl closed_error, e, w)"
    and "engine_keys pat (e, w) = (Inl closed_error, e, w)"
    and "engine_size (e, w) = (Inl closed_error, e, w)"
    and "engine_destroy (e, w) = (Inl closed_error, e, w)"
    and "engine_close P (e, w) = (Inr (), e, w)"
    and "engine_storagePath (e, w) = (Inr (dirPath e), e, w)"
  using assms
  by (simp_all add: engine_get_def engine_getOrThrow_def engine_set_def engine_has_def
      engine_delete_def engine_keys_def engine_size_def engine_destroy_def engine_close_def
      engine_storagePath_def ensureOpen_def closed_error_def)

lemma close_closes:
  assumes "engine_close P (e, w) = (Inr u, e', w')"
  shows "closed e'"
  using assms
  by (auto simp: engine_close_def split: if_splits prod.splits sum.splits)

lemma demo_close: "fst (engine_close demo_prims (demo_engine, demo_store)) = Inr ()"
  by code_simp

text \<open>
  C2, as the claim states it, fails: \<open>destroy\<close> begins with \<open>ensureOpen\<close> like the other
  operations, so after \<open>close\<close> it raises the closed-instance error.
\<close>

theorem destroy_after_close_counterexample:
  "fst (engine_close demo_prims (demo_engine, demo_store)) = Inr ()
   \<and> fst (engine_destroy (snd (engine_close demo_prims (demo_engine, demo_store))))
       = Inl (JsError (js ''SecretsEngine instance is closed''))"
  by code_simp

text \<open>
  C2, amended.  After \<open>close\<close> has completed, \<open>get\<close>, \<open>getOrThrow\<close>, \<open>set\<close>, \<open>has\<close>,
  \<open>delete\<close>, \<open>keys\<close>, \<open>size\<close> and \<open>destroy\<close> all fail with the error "SecretsEngine
  instance is closed" and change nothing; a second \<open>close\<close> is a no-op and
  \<open>storagePath\<close> still returns the directory.
\<close>

theorem closed_instance_guard:
  assumes "engine_close P (e, w) = (Inr u, e', w')"
  shows "engine_get P k (e', w') = (Inl closed_error, e', w')
       \<and> engine_getOrThrow P k (e', w') = (Inl closed_error, e', w')
       \<and> engine_set P k v (e', w') = (Inl closed_error, e', w')
       \<and> engine_has P k (e', w') = (Inl closed_error, e', w')
       \<and> engine_delete P k (e', w') = (Inl closed_error, e', w')
       \<and> engine_keys pat (e', w') = (Inl closed_error, e', w')
       \<and> engine_size (e', w') = (Inl closed_error, e', w')
       \<and> engine_destroy (e', w') = (Inl closed_error, e', w')
       \<and> engine_close P (e', w') = (Inr (), e', w')
       \<and> engine_storagePath (e', w') = (Inr (dirPath e'), e', w')"
  using closed_ops [OF close_closes [OF assms]] by simp

theorem closed_instance_guard_witness:
  "fst (engine_close demo_prims (demo_engine, demo_store)) = Inr ()
   \<and> fst (engine_get demo_prims (js ''k'') (snd (engine_close demo_prims (demo_engine, demo_store))))
       = Inl closed_error
   \<and> fst (engine_destroy (snd (engine_close demo_prims (demo_engine, demo_store)))) = Inl closed_error
   \<and> fst (engine_close demo_prims (snd (engine_close demo_prims (demo_engine, demo_store)))) = Inr ()"
proof -
  obtain e' w' where s: "snd (engine_close demo_prims (demo_engine, demo_store)) = (e', w')"
    by (cases "snd (engine_close demo_prims (demo_engine, demo_store))")
  with demo_close have c: "engine_close demo_prims (demo_engine, demo_store) = (Inr (), e', w')"
    by (metis prod.collapse)
  show ?thesis
    using closed_instance_guard [OF c, of "js ''k''"] demo_close s by simp
qed

section \<open>Decryption failures\<close>

lemma decode_ff: "toString_utf8 [0xFF] = [0xFFFD]"
  by (simp add: toString_utf8_def utf16_of_code_point_def)

lemma encode_fffd: "utf8_encode [0xFFFD] = [0xEF, 0xBF, 0xBD]"
  by (simp add: utf8_encode_def utf8_of_code_point_def)

lemma demo_decipher_ff:
  "decipher demo_prims (replicate 32 1) (replicate 12 7) (0xFF # demo_tag) = Inr [0xFF]"
  by code_simp

lemma demo_len: "16 \<le> length (0xFF # demo_tag)"
  by code_simp

lemma demo_decipher_bad:
  "decipher demo_prims (replicate 32 1) (replicate 12 7) (replicate 16 0)
     = Inl (js ''Unsupported state or unable to authenticate data'')"
  by code_simp

text \<open>
  C7, as the claim states it, fails: bytes that are not UTF-8 do not make \<open>decrypt\<close>
  raise.  The tag of the buffer below verifies, the plaintext is the single byte
  \<open>0xFF\<close>, and \<open>decrypt\<close> returns the string U+FFFD.
\<close>

theorem decrypt_invalid_utf8_counterexample:
  "aead_open demo_prims (replicate 32 1) (replicate 12 7) [0xFF] demo_tag = Inr [0xFF]
   \<and> \<not> valid_utf8 [0xFF]
   \<and> decrypt demo_prims (replicate 32 1) (replicate 12 7) (0xFF # demo_tag) None = Inr [0xFFFD]"
  by (simp add: decrypt_def demo_prims_def demo_tag_def AUTH_TAG_LENGTH_def valid_utf8_def
      decode_ff encode_fffd)

text \<open>
  C7, amended.  \<open>decrypt\<close> raises exactly when the ciphertext is shorter than 16 bytes
  or the decipher throws (the tag does not verify); otherwise it returns the
  plaintext bytes decoded as UTF-8, with U+FFFD wherever they are not UTF-8.  What it
  raises is a DecryptionError with the fixed text about the length or the message of
  the decipher; its message shows the first 16 characters of the key hash and no
  more of it.
\<close>

theorem decrypt_raises_exactly:
  "((\<exists>err. decrypt P mk i ct kh = Inl err) \<longleftrightarrow>
       (length ct < 16 \<or> (\<exists>m. decipher P mk i ct = Inl m)))
   \<and> (length ct < 16 \<longrightarrow> decrypt P mk i ct kh = Inl (DecryptionError too_short kh))
   \<and> (16 \<le> length ct \<longrightarrow> decipher P mk i ct = Inl m \<longrightarrow>
         decrypt P mk i ct kh = Inl (DecryptionError m kh))
   \<and> (16 \<le> length ct \<longrightarrow> decipher P mk i ct = Inr plain \<longrightarrow>
         decrypt P mk i ct kh = Inr (toString_utf8 plain))
   \<and> error_message (DecryptionError m kh) = decryption_message (map_option (take 16) kh) m"
  by (auto simp: decrypt_def decipher_def AUTH_TAG_LENGTH_def Let_def too_short_def
      decryption_message_def truthy_def split: sum.splits option.splits)

theorem decrypt_raises_exactly_witness:
  "16 \<le> length (0xFF # demo_tag)
   \<and> decipher demo_prims (replicate 32 1) (replicate 12 7) (0xFF # demo_tag) = Inr [0xFF]
   \<and> decrypt demo_prims (replicate 32 1) (replicate 12 7) (0xFF # demo_tag)
         (Some (js ''0123456789abcdefXYZ''))
       = Inr (toString_utf8 [0xFF])
   \<and> 16 \<le> length (replicate 16 (0 :: byte))
   \<and> decipher demo_prims (replicate 32 1) (replicate 12 7) (replicate 16 0)
       = Inl (js ''Unsupported state or unable to authenticate data'')
   \<and> decrypt demo_prims (replicate 32 1) (replicate 12 7) (replicate 16 0)
         (Some (js ''0123456789abcdefXYZ''))
       = Inl (DecryptionError (js ''Unsupported state or unable to authenticate data'')
                (Some (js ''0123456789abcdefXYZ'')))
   \<and> length [1, 2, 3 :: byte] < 16
   \<and> decrypt demo_prims (replicate 32 1) (replicate 12 7) [1, 2, 3] None
       = Inl (DecryptionError too_short None)"
proof -
  let ?kh = "Some (js ''0123456789abcdefXYZ'')"
  let ?m = "js ''Unsupported state or unable to authenticate data''"
  note good = decrypt_raises_exactly
                [of demo_prims "replicate 32 1" "replicate 12 7" "0xFF # demo_tag" ?kh ?m "[0xFF]"]
  note bad = decrypt_raises_exactly
               [of demo_prims "replicate 32 1" "replicate 12 7" "replicate 16 0" ?kh ?m "[]"]
  note short = decrypt_raises_exactly
               [of demo_prims "replicate 32 1" "replicate 12 7" "[1, 2, 3]" None ?m "[]"]
  have l16: "16 \<le> length (replicate 16 (0 :: byte))" and l3: "length [1, 2, 3 :: byte] < 16"
    by simp_all
  have ok: "decrypt demo_prims (replicate 32 1) (replicate 12 7) (0xFF # demo_tag) ?kh
              = Inr (toString_utf8 [0xFF])"
    using good demo_len demo_decipher_ff by blast
  have raised: "decrypt demo_prims (replicate 32 1) (replicate 12 7) (replicate 16 0) ?kh
              = Inl (DecryptionError ?m ?kh)"
    using bad l16 demo_decipher_bad by blast
  have short': "decrypt demo_prims (replicate 32 1) (replicate 12 7) [1, 2, 3] None
       = Inl (DecryptionError too_short None)"
    using short l3 by blast
  show ?thesis
    using demo_len demo_decipher_ff ok demo_decipher_bad raised l16 l3 short' by blast
qed

section \<open>The glob matcher\<close>

text \<open>
  C4 fails at the character \<open>?\<close>, which the escaping pass leaves alone: in the regular
  expression it makes the character before it optional.  The pattern \<open>a?\<close> stands for
  the key \<open>a?\<close> and for no other, yet \<open>matchGlob\<close> rejects \<open>a?\<close> and accepts \<open>a\<close>; the
  pattern \<open>?\<close> is not a regular expression at all.
\<close>

theorem matchGlob_question_mark:
  "glob_spec (js ''a?'') (js ''a?'') \<and> matchGlob (js ''a?'') (js ''a?'') = Inr False
   \<and> \<not> glob_spec (js ''a?'') (js ''a'') \<and> matchGlob (js ''a?'') (js ''a'') = Inr True
   \<and> matchGlob (js ''?'') (js ''?'') = Inl (SyntaxError (js ''Nothing to repeat''))"
  by code_simp

section \<open>Listing the names\<close>

lemma filterKeys_Inr:
  "filterKeys names p = Inr ks \<Longrightarrow> ks = filter (\<lambda>name. matchGlob p name = Inr True) names"
proof (induction names arbitrary: ks)
  case Nil
  then show ?case by simp
next
  case (Cons name names)
  then show ?case
    by (auto split: sum.splits if_splits)
qed

lemma filterKeys_Inl:
  "filterKeys names p = Inl err \<Longrightarrow> \<exists>name \<in> set names. matchGlob p name = Inl err"
  by (induction names) (auto split: sum.splits if_splits)

lemma filterKeys_returns:
  "(\<forall>name \<in> set names. \<exists>b. matchGlob p name = Inr b) \<Longrightarrow> \<exists>ks. filterKeys names p = Inr ks"
  by (induction names) auto

text \<open>
  C8, as the claim states it, fails: \<open>Array.prototype.sort\<close> without a comparator
  orders strings by UTF-16 code units.  U+1F600 is the surrogate pair \<open>D83D DE00\<close>
  and so comes before U+FF5E, though its code point is the larger one.
\<close>

theorem keys_code_point_order_counterexample:
  "fst (engine_keys None (demo_names, demo_store)) = Inr [[0xD83D, 0xDE00], [0xFF5E]]
   \<and> map code_points [[0xD83D, 0xDE00], [0xFF5E]] = [[0x1F600], [0xFF5E]]
   \<and> \<not> sorted (map code_points [[0xD83D, 0xDE00], [0xFF5E]])"
  by (simp add: engine_keys_def demo_names_def demo_engine_def ensureOpen_def truthy_def
      is_high_def is_low_def)

text \<open>
  C8, amended.  What \<open>keys\<close> returns is sorted ascending by UTF-16 code units and
  holds exactly the names of the index that are listed: all of them when no pattern
  or the empty pattern is given, else those the glob matcher accepts.  The engine
  and the machine are left as they were.  On an open engine \<open>keys\<close> returns unless
  the pattern makes the matcher throw.
\<close>

theorem keys_sorted_by_code_units:
  "(engine_keys pattern (e, w) = (Inr ks, s) \<longrightarrow>
      sorted ks \<and> mset ks = mset (filter (listed pattern) (map snd (keyIndex e))) \<and> s = (e, w))
   \<and> (\<not> closed e \<longrightarrow>
        (truthy pattern \<longrightarrow> (\<forall>name \<in> set (map snd (keyIndex e)). \<exists>b. matchGlob (the pattern) name = Inr b)) \<longrightarrow>
        (\<exists>ks. engine_keys pattern (e, w) = (Inr ks, e, w)))"
proof (rule conjI; intro impI)
  assume a: "engine_keys pattern (e, w) = (Inr ks, s)"
  show "sorted ks \<and> mset ks = mset (filter (listed pattern) (map snd (keyIndex e))) \<and> s = (e, w)"
  proof (cases "truthy pattern")
    case False
    with a show ?thesis
      by (auto simp: engine_keys_def listed_def Let_def split: sum.splits)
  next
    case True
    with a obtain r where r: "filterKeys (map snd (keyIndex e)) (the pattern) = Inr r"
      and ks: "ks = sort r" and s: "s = (e, w)"
      by (cases "filterKeys (map snd (keyIndex e)) (the pattern)")
         (auto simp: engine_keys_def Let_def split: sum.splits)
    from True have "listed pattern = (\<lambda>name. matchGlob (the pattern) name = Inr True)"
      by (simp add: listed_def fun_eq_iff)
    with filterKeys_Inr [OF r] have "r = filter (listed pattern) (map snd (keyIndex e))"
      by simp
    with ks s show ?thesis by simp
  qed
next
  assume o: "\<not> closed e"
    and m: "truthy pattern \<longrightarrow>
              (\<forall>name \<in> set (map snd (keyIndex e)). \<exists>b. matchGlob (the pattern) name = Inr b)"
  show "\<exists>ks. engine_keys pattern (e, w) = (Inr ks, e, w)"
  proof (cases "truthy pattern")
    case False
    with o show ?thesis
      by (simp add: engine_keys_def ensureOpen_def Let_def)
  next
    case True
    with m filterKeys_returns [of "map snd (keyIndex e)" "the pattern"]
    obtain r where "filterKeys (map snd (keyIndex e)) (the pattern) = Inr r"
      by blast
    with o True show ?thesis
      by (simp add: engine_keys_def ensureOpen_def Let_def)
  qed
qed

lemma demo_keys: "fst (engine_keys None (demo_names, demo_store)) = Inr [[0xD83D, 0xDE00], [0xFF5E]]"
  by (simp add: engine_keys_def demo_names_def demo_engine_def ensureOpen_def truthy_def)

theorem keys_sorted_by_code_units_witness:
  "fst (engine_keys None (demo_names, demo_store)) = Inr [[0xD83D, 0xDE00], [0xFF5E]]
   \<and> sorted [[0xD83D, 0xDE00], [0xFF5E :: 16 word]]
   \<and> mset [[0xD83D, 0xDE00], [0xFF5E]] = mset (filter (listed None) (map snd (keyIndex demo_names)))
   \<and> snd (engine_keys None (demo_names, demo_store)) = (demo_names, demo_store)
   \<and> \<not> closed demo_names \<and> \<not> truthy None"
proof -
  have k: "engine_keys None (demo_names, demo_store)
             = (Inr [[0xD83D, 0xDE00], [0xFF5E]], snd (engine_keys None (demo_names, demo_store)))"
    using demo_keys by (metis prod.collapse)
  have c: "\<not> closed demo_names" "\<not> truthy None"
    by (simp_all add: demo_names_def demo_engine_def truthy_def)
  from keys_sorted_by_code_units [of None demo_names demo_store "[[0xD83D, 0xDE00], [0xFF5E]]"
      "snd (engine_keys None (demo_names, demo_store))"] k
  have "sorted [[0xD83D, 0xDE00], [0xFF5E :: 16 word]]
     \<and> mset [[0xD83D, 0xDE00], [0xFF5E]] = mset (filter (listed None) (map snd (keyIndex demo_names)))
     \<and> snd (engine_keys None (demo_names, demo_store)) = (demo_names, demo_store)"
    by blast
  with demo_keys c show ?thesis by blast
qed

section \<open>The checkpoint discipline of the integrity seal\<close>

lemma written_mode_after_commit [simp]: "written_mode (after_commit w) = written_mode w"
  by (simp add: after_commit_def)

lemma after_commit_rows [simp]: "db_rows (after_commit w) = db_rows w"
  by (simp add: after_commit_def)

lemma after_commit_keeps [simp]:
  "wal_autocheckpoint (after_commit w) = wal_autocheckpoint w"
  "metafile (after_commit w) = metafile w"
  "checkpoint_fault (after_commit w) = checkpoint_fault w"
  by (simp_all add: after_commit_def)

lemma upsert_trace:
  "trace (upsert h ke i c w) = trace w @ commit_events w (Upsert h)"
  by (simp add: upsert_def after_commit_def commit_events_def)

lemma upsert_file:
  "db_file (upsert h ke i c w) =
     (if wal_autocheckpoint w (Suc (length (trace w)))
      then Some (db_rows (upsert h ke i c w)) else db_file w)"
  by (simp add: upsert_def after_commit_def)

lemma upsert_keeps [simp]:
  "written_mode (upsert h ke i c w) = written_mode w"
  "wal_autocheckpoint (upsert h ke i c w) = wal_autocheckpoint w"
  by (simp_all add: upsert_def)

lemma delete_trace:
  "trace (snd (deleteByHash h w)) = trace w @ commit_events w (Delete h)"
  by (simp add: deleteByHash_def after_commit_def commit_events_def Let_def)

lemma delete_file:
  "db_file (snd (deleteByHash h w)) =
     (if wal_autocheckpoint w (Suc (length (trace w)))
      then Some (db_rows (snd (deleteByHash h w))) else db_file w)"
  by (simp add: deleteByHash_def after_commit_def Let_def)

lemma delete_keeps [simp]:
  "written_mode (snd (deleteByHash h w)) = written_mode w"
  by (simp add: deleteByHash_def Let_def)

lemma update_plain_result:
  assumes "updateIntegrity P mk dbp s None w = (Inr u, w')"
  shows "db_file w \<noteq> None \<and> db_file w' = db_file w \<and> db_rows w' = db_rows w
       \<and> metafile w' = Some (written_mode w, meta_text P s (seal P mk (the (db_file w))))
       \<and> trace w' = trace w @ [ReadDatabaseFile,
                                WriteMetaFile (meta_text P s (seal P mk (the (db_file w))))]"
  using assms
  by (cases "db_file w") (auto simp: update_plain_ok update_plain_fails)

lemma engine_set_unfold:
  assumes "\<not> closed e"
  shows "engine_set P k v (e, w) =
     (let i1 = map (entropy w) [entropy_used w ..< entropy_used w + 12];
          i2 = map (entropy w) [entropy_used w + 12 ..< entropy_used w + 24];
          w3 = upsert (hashKey P e k)
                 (i1 @ fst (aead_seal P (masterKey e) i1 (utf8_encode k))
                     @ snd (aead_seal P (masterKey e) i1 (utf8_encode k)))
                 i2
                 (fst (aead_seal P (masterKey e) i2 (utf8_encode v))
                    @ snd (aead_seal P (masterKey e) i2 (utf8_encode v)))
                 (w\<lparr>entropy_used := entropy_used w + 24\<rparr>)
      in (fst (updateIntegrity P (masterKey e) (store e) (salt e) None w3),
          e\<lparr>keyIndex := map_set (hashKey P e k) k (keyIndex e)\<rparr>,
          snd (updateIntegrity P (masterKey e) (store e) (salt e) None w3)))"
  using assms
  by (simp add: engine_set_def ensureOpen_def encrypt_def randomBytes_def IV_LENGTH_def
      Let_def hashKey_def case_prod_beta add.assoc)

lemma set_discipline:
  assumes "engine_set P k v (e, w) = (Inr u, e', w')"
  shows "db_file w' \<noteq> None
       \<and> db_file w' = (if wal_autocheckpoint w (Suc (length (trace w)))
                        then Some (db_rows w') else db_file w)
       \<and> metafile w' = Some (written_mode w,
                               meta_text P (salt e) (seal P (masterKey e) (the (db_file w'))))
       \<and> trace w' = trace w @ commit_events w (Upsert (hashKey P e k))
                       @ [ReadDatabaseFile,
                          WriteMetaFile (meta_text P (salt e)
                                           (seal P (masterKey e) (the (db_file w'))))]"
proof -
  from assms have o: "\<not> closed e"
    by (auto simp: engine_set_def ensureOpen_def split: if_splits)
  let ?i1 = "map (entropy w) [entropy_used w ..< entropy_used w + 12]"
  let ?i2 = "map (entropy w) [entropy_used w + 12 ..< entropy_used w + 24]"
  let ?w3 = "upsert (hashKey P e k)
                 (?i1 @ fst (aead_seal P (masterKey e) ?i1 (utf8_encode k))
                     @ snd (aead_seal P (masterKey e) ?i1 (utf8_encode k)))
                 ?i2
                 (fst (aead_seal P (masterKey e) ?i2 (utf8_encode v))
                    @ snd (aead_seal P (masterKey e) ?i2 (utf8_encode v)))
                 (w\<lparr>entropy_used := entropy_used w + 24\<rparr>)"
  from assms engine_set_unfold [OF o, of P k v w]
  have "updateIntegrity P (masterKey e) (store e) (salt e) None ?w3 = (Inr u, w')"
    by (simp add: Let_def prod_eq_iff)
  from update_plain_result [OF this] show ?thesis
    by (simp add: upsert_trace upsert_file commit_events_def)
qed

lemma deleted_iff:
  "fst (deleteByHash h w) = (h \<in> key_hash ` set (db_rows w))"
  by (force simp: deleteByHash_def Let_def filter_empty_conv)

lemma engine_delete_unfold:
  assumes "\<not> closed e"
  shows "engine_delete P k (e, w) =
     (if fst (deleteByHash (hashKey P e k) w)
      then (map_sum id (\<lambda>u. True)
              (fst (updateIntegrity P (masterKey e) (store e) (salt e) None
                      (snd (deleteByHash (hashKey P e k) w)))),
            e\<lparr>keyIndex := map_delete (hashKey P e k) (keyIndex e)\<rparr>,
            snd (updateIntegrity P (masterKey e) (store e) (salt e) None
                   (snd (deleteByHash (hashKey P e k) w))))
      else (Inr False, e, snd (deleteByHash (hashKey P e k) w)))"
  using assms
  by (auto simp: engine_delete_def ensureOpen_def Let_def case_prod_beta split: sum.splits)

lemma delete_discipline:
  assumes "engine_delete P k (e, w) = (Inr True, e', w')"
  shows "db_file w' \<noteq> None
       \<and> db_file w' = (if wal_autocheckpoint w (Suc (length (trace w)))
                        then Some (db_rows w') else db_file w)
       \<and> metafile w' = Some (written_mode w,
                               meta_text P (salt e) (seal P (masterKey e) (the (db_file w'))))
       \<and> trace w' = trace w @ commit_events w (Delete (hashKey P e k))
                       @ [ReadDatabaseFile,
                          WriteMetaFile (meta_text P (salt e)
                                           (seal P (masterKey e) (the (db_file w'))))]"
proof -
  from assms have o: "\<not> closed e"
    by (auto simp: engine_delete_def ensureOpen_def split: if_splits)
  let ?w1 = "snd (deleteByHash (hashKey P e k) w)"
  from assms engine_delete_unfold [OF o, of P k w]
  have "updateIntegrity P (masterKey e) (store e) (salt e) None ?w1 = (Inr (), w')"
    by (cases "fst (updateIntegrity P (masterKey e) (store e) (salt e) None ?w1)")
       (auto simp: prod_eq_iff split: if_splits)
  from update_plain_result [OF this] show ?thesis
    by (simp add: delete_trace delete_file)
qed

lemma close_discipline:
  assumes "engine_close P (e, w) = (Inr u, e', w')" and "\<not> closed e"
  shows "db_file w' = Some (db_rows w)
       \<and> metafile w' = Some (written_mode w,
                               meta_text P (salt e) (seal P (masterKey e) (db_rows w)))
       \<and> trace w' = trace w @ [Checkpoint, ReadDatabaseFile,
                               WriteMetaFile (meta_text P (salt e) (seal P (masterKey e) (db_rows w))),
                               CloseDatabase]"
proof (cases "checkpoint_fault w")
  case None
  with assms show ?thesis
    by (simp add: engine_close_def checkpoint_ok update_plain_ok SecretStore_close_def) auto
next
  case (Some message)
  with assms show ?thesis
    by (simp add: engine_close_def checkpoint_fails)
qed

lemma verify_trace:
  assumes "verifyIntegrity P mk dbp (Some checkpoint) w = (r, w')"
  shows "(trace w' = trace w \<and> isl r)
       \<or> (trace w' = trace w @ [Checkpoint, ReadDatabaseFile] \<and> db_file w' = Some (db_rows w'))"
proof (cases "checkpoint_fault w")
  case None
  with assms show ?thesis
    by (auto simp: verifyIntegrity_def compute_checkpoint_ok Let_def
      split: option.splits if_splits sum.splits)
next
  case (Some message)
  with assms show ?thesis
    by (auto simp: verifyIntegrity_def compute_checkpoint_fails Let_def
      split: option.splits if_splits sum.splits)
qed

lemma open_body_existing_unfold:
  "open_body P mk dbp dir s False w =
     (case verifyIntegrity P mk dbp (Some checkpoint) w of
        (Inl err, w1) \<Rightarrow> (Inl err, w1)
      | (Inr meta, w1) \<Rightarrow>
          (Inr \<lparr>masterKey = mk, store = dbp, dirPath = dir, salt = s,
                keyIndex = built_index P mk (db_rows w1), closed = False\<rparr>, w1))"
  by (simp add: open_body_def and_then_def findAll_def buildKeyIndex_built Let_def
      split: prod.splits sum.splits)

lemma open_body_existing_cases:
  assumes "open_body P mk dbp dir s False w = (r, w')"
  shows "(trace w' = trace w \<and> isl r)
       \<or> (trace w' = trace w @ [Checkpoint, ReadDatabaseFile] \<and> db_file w' = Some (db_rows w'))"
proof -
  obtain r1 w1 where v: "verifyIntegrity P mk dbp (Some checkpoint) w = (r1, w1)"
    by (cases "verifyIntegrity P mk dbp (Some checkpoint) w")
  with assms have "w' = w1 \<and> (isl r1 \<longrightarrow> isl r)"
    by (cases r1) (auto simp: open_body_existing_unfold)
  with verify_trace [OF v] show ?thesis
    by auto
qed

lemma engine_open_cases:
  assumes "engine_open P options w = (r, w')"
  shows "(isl r \<and> trace w' = trace w)
       \<or> (\<exists>dir w1 kf w2 s isNew w3 w4 mk dbp r5 w5.
             ensureDirectory dir w = (Inr (), w1) \<and> ensureKeyfile P dir w1 = (Inr kf, w2)
           \<and> resolveSalt P w2 = ((s, isNew), w3) \<and> SecretStore_open P dir w3 = (Inr (), w4)
           \<and> open_body P mk dbp dir s isNew w4 = (r5, w5) \<and> r = r5
           \<and> w' = (if isl r5 then SecretStore_close w5 else w5))"
proof (cases "resolveStoragePath P (process w) options")
  case (Inl err)
  with assms show ?thesis
    by (auto simp: engine_open_def)
next
  case (Inr dir)
  obtain r1 w1 where d: "ensureDirectory dir w = (r1, w1)"
    by (cases "ensureDirectory dir w")
  show ?thesis
  proof (cases r1)
    case (Inl err)
    with assms Inr d ensureDirectory_keeps [OF d] show ?thesis
      by (auto simp: engine_open_def)
  next
    case u1: (Inr u)
    obtain r2 w2 where k: "ensureKeyfile P dir w1 = (r2, w2)"
      by (cases "ensureKeyfile P dir w1")
    show ?thesis
    proof (cases r2)
      case (Inl err)
      with assms Inr d u1 k ensureDirectory_keeps [OF d] ensureKeyfile_keeps [OF k] show ?thesis
        by (auto simp: engine_open_def)
    next
      case kf: (Inr kf)
      obtain s isNew w3 where rs: "resolveSalt P w2 = ((s, isNew), w3)"
        by (cases "resolveSalt P w2") auto
      obtain r4 w4 where o: "SecretStore_open P dir w3 = (r4, w4)"
        by (cases "SecretStore_open P dir w3")
      have t4: "trace w4 = trace w"
        using ensureDirectory_keeps [OF d] ensureKeyfile_keeps [OF k] resolveSalt_keeps [OF rs]
          SecretStore_open_keeps [OF o] by simp
      show ?thesis
      proof (cases r4)
        case (Inl err)
        with assms Inr d u1 k kf rs o t4 show ?thesis
          by (auto simp: engine_open_def Let_def)
      next
        case u4: (Inr u')
        let ?mk = "deriveMasterKey P (getMachineIdentity (process w3)) kf (from_hex s)"
        obtain r5 w5 where b: "open_body P ?mk (path_join P dir DB_NAME) dir s isNew w4 = (r5, w5)"
          by (cases "open_body P ?mk (path_join P dir DB_NAME) dir s isNew w4")
        from assms Inr d u1 k kf rs o u4 b
        have "r = r5 \<and> w' = (if isl r5 then SecretStore_close w5 else w5)"
          by (cases r5) (auto simp: engine_open_def Let_def)
        moreover
        from d u1 k kf o u4
        have "ensureDirectory dir w = (Inr (), w1)" "ensureKeyfile P dir w1 = (Inr kf, w2)"
          "SecretStore_open P dir w3 = (Inr (), w4)"
          by simp_all
        ultimately show ?thesis
          using rs b by blast
      qed
    qed
  qed
qed

lemma open_discipline:
  assumes "engine_open P options w = (r, w')" and "\<not> snd (fst (resolveSalt P w))"
  shows "take (length (trace w)) (trace w') = trace w
       \<and> drop (length (trace w)) (trace w') \<in> verification_events
       \<and> (ReadDatabaseFile \<in> set (drop (length (trace w)) (trace w'))
            \<longrightarrow> db_file w' = Some (db_rows w'))
       \<and> (\<not> isl r \<longrightarrow> trace w' = trace w @ [Checkpoint, ReadDatabaseFile])"
proof -
  from engine_open_cases [OF assms(1)]
  consider "isl r" "trace w' = trace w"
    | dir w1 kf w2 s isNew w3 w4 mk dbp r5 w5 where
        "ensureDirectory dir w = (Inr (), w1)" "ensureKeyfile P dir w1 = (Inr kf, w2)"
        "resolveSalt P w2 = ((s, isNew), w3)" "SecretStore_open P dir w3 = (Inr (), w4)"
        "open_body P mk dbp dir s isNew w4 = (r5, w5)" "r = r5"
        "w' = (if isl r5 then SecretStore_close w5 else w5)"
    by blast
  then show ?thesis
  proof cases
    case 1
    then show ?thesis
      by (simp add: verification_events_def)
  next
    case 2
    from ensureDirectory_keeps [OF 2(1)] ensureKeyfile_keeps [OF 2(2)]
    have m2: "metafile w2 = metafile w" and t2: "trace w2 = trace w"
      by simp_all
    from resolveSalt_flag [OF m2, of P] assms(2) 2(3) have old: "\<not> isNew"
      by simp
    from resolveSalt_keeps [OF 2(3)] SecretStore_open_keeps [OF 2(4)] t2
    have t4: "trace w4 = trace w"
      by simp
    from 2(5) old have "open_body P mk dbp dir s False w4 = (r5, w5)"
      by simp
    from open_body_existing_cases [OF this] t4
    consider "trace w5 = trace w" "isl r5"
      | "trace w5 = trace w @ [Checkpoint, ReadDatabaseFile]" "db_file w5 = Some (db_rows w5)"
      by auto
    then show ?thesis
    proof cases
      case 1
      with 2(6,7) show ?thesis
        by (simp add: verification_events_def SecretStore_close_def)
    next
      case 2
      with \<open>r = r5\<close> \<open>w' = (if isl r5 then SecretStore_close w5 else w5)\<close> show ?thesis
        by (simp add: verification_events_def SecretStore_close_def)
    qed
  qed
qed

lemma update_plain_returns:
  "db_file w \<noteq> None \<Longrightarrow> fst (updateIntegrity P mk dbp s None w) = Inr ()"
  by (auto simp: update_plain_ok)

lemma engine_set_returns:
  assumes "\<not> closed e" and "db_file w \<noteq> None"
  shows "fst (engine_set P k v (e, w)) = Inr ()"
proof -
  have "db_file (upsert h ke i c (w\<lparr>entropy_used := n\<rparr>)) \<noteq> None" for h ke i c n
    using assms(2) by (auto simp: upsert_def after_commit_def)
  then show ?thesis
    using assms(1) by (simp add: engine_set_unfold Let_def update_plain_returns)
qed

lemma engine_close_returns:
  assumes "\<not> closed e" and "checkpoint_fault w = None"
  shows "fst (engine_close P (e, w)) = Inr ()"
  using assms
  by (simp add: engine_close_def checkpoint_ok update_plain_ok)

lemma engine_delete_returns:
  assumes "\<not> closed e" and "db_file w \<noteq> None"
  shows "fst (engine_delete P k (e, w)) = Inr (hashKey P e k \<in> key_hash ` set (db_rows w))"
proof -
  have "db_file (snd (deleteByHash h w)) \<noteq> None" for h
    using assms(2) by (auto simp: deleteByHash_def after_commit_def Let_def)
  then show ?thesis
    using assms(1) by (simp add: engine_delete_unfold deleted_iff update_plain_returns)
qed

lemma demo_store_facts:
  "\<not> closed demo_engine" "db_file demo_store \<noteq> None" "checkpoint_fault demo_store = None"
  "db_file demo_busy \<noteq> None" "wal_autocheckpoint demo_busy (Suc (length (trace demo_busy)))"
  "\<not> wal_autocheckpoint demo_store (Suc (length (trace demo_store)))"
  by (simp_all add: demo_engine_def demo_store_def demo_world_def demo_busy_def)

lemma demo_existing: "\<not> snd (fst (resolveSalt demo_prims demo_store))"
  by (simp add: resolveSalt_def readMetaFile_def demo_store_def demo_world_def demo_prims_def
      demo_json_parse_def member_def truthy_def js_def Let_def)

lemma demo_stored_existing: "\<not> snd (fst (resolveSalt demo_prims demo_stored))"
  by (simp add: resolveSalt_def readMetaFile_def demo_stored_def demo_store_def demo_world_def
      demo_prims_def demo_json_parse_def member_def truthy_def js_def Let_def)

lemma demo_open: "map_sum id closed (fst (engine_open demo_prims demo_options demo_store)) = Inr False"
  by (simp add: engine_open_def demo_options_def resolveStoragePath_def options_path_def truthy_def
      ensureDirectory_def verifyPermission_def stat_mode_def ensureKeyfile_def readFile_keyfile_def
      resolveSalt_def readMetaFile_def SecretStore_open_def open_body_def verifyIntegrity_def
      compute_checkpoint_ok findAll_def member_def
      demo_store_def demo_world_def demo_env_def demo_prims_def demo_json_parse_def
      mode_directory_def mode_keyfile_def mode_meta_def octal_def STORE_VERSION_def
      seal_def hmac_def sha256_def toString_hex_def js_def Let_def)

lemma demo_open_tampered:
  "fst (engine_open demo_prims demo_options demo_stored) = Inl (IntegrityError integrity_default)"
  by (simp add: engine_open_def demo_options_def resolveStoragePath_def options_path_def truthy_def
      ensureDirectory_def verifyPermission_def stat_mode_def ensureKeyfile_def readFile_keyfile_def
      resolveSalt_def readMetaFile_def SecretStore_open_def open_body_def verifyIntegrity_def
      compute_checkpoint_ok findAll_def member_def
      demo_stored_def demo_row_def demo_tag_def
      demo_store_def demo_world_def demo_env_def demo_prims_def demo_json_parse_def
      mode_directory_def mode_keyfile_def mode_meta_def octal_def STORE_VERSION_def
      seal_def hmac_def sha256_def toString_hex_def js_def Let_def)

lemma demo_hash_k: "hashKey demo_prims demo_engine (js ''k'') = toString_hex [0x6B]"
  by (simp add: hashKey_def hmac_def demo_prims_def utf8_encode_def utf8_of_code_point_def js_def)

lemma demo_stored_facts:
  "db_file demo_stored \<noteq> None" "checkpoint_fault demo_stored = None"
  "hashKey demo_prims demo_engine (js ''k'') \<in> key_hash ` set (db_rows demo_stored)"
  by (simp_all add: demo_stored_def demo_store_def demo_world_def demo_row_def demo_hash_k)

text \<open>
  C5.  Opening an existing store, whatever the outcome, reads the database file for
  the seal only right after \<open>store.checkpoint()\<close>, and the file it reads then holds
  all the rows; an open that returns has done exactly that.  \<open>set\<close> and a successful
  \<open>delete\<close> run no \<open>store.checkpoint()\<close>: after the statement they read the main
  file as it is (moved on only if SQLite checkpointed by itself at the commit) and
  write into \<open>meta.json\<close> the seal taken over it.  \<open>close\<close> runs \<open>store.checkpoint()\<close>
  first, so the seal it writes into \<open>meta.json\<close> is taken over all the rows, and then
  closes the database.
\<close>

theorem checkpoint_discipline:
  "(engine_open P options w = (r, w') \<longrightarrow> \<not> snd (fst (resolveSalt P w)) \<longrightarrow>
      take (length (trace w)) (trace w') = trace w
      \<and> drop (length (trace w)) (trace w') \<in> verification_events
      \<and> (ReadDatabaseFile \<in> set (drop (length (trace w)) (trace w'))
           \<longrightarrow> db_file w' = Some (db_rows w'))
      \<and> (\<not> isl r \<longrightarrow> trace w' = trace w @ [Checkpoint, ReadDatabaseFile]))
   \<and> (engine_set P k v (e, w) = (Inr u, e', w') \<longrightarrow>
        db_file w' \<noteq> None
        \<and> db_file w' = (if wal_autocheckpoint w (Suc (length (trace w)))
                         then Some (db_rows w') else db_file w)
        \<and> metafile w' = Some (written_mode w,
                                meta_text P (salt e) (seal P (masterKey e) (the (db_file w'))))
        \<and> trace w' = trace w @ commit_events w (Upsert (hashKey P e k))
                        @ [ReadDatabaseFile,
                           WriteMetaFile (meta_text P (salt e)
                                            (seal P (masterKey e) (the (db_file w'))))])
   \<and> (engine_delete P k (e, w) = (Inr True, e', w') \<longrightarrow>
        db_file w' \<noteq> None
        \<and> db_file w' = (if wal_autocheckpoint w (Suc (length (trace w)))
                         then Some (db_rows w') else db_file w)
        \<and> metafile w' = Some (written_mode w,
                                meta_text P (salt e) (seal P (masterKey e) (the (db_file w'))))
        \<and> trace w' = trace w @ commit_events w (Delete (hashKey P e k))
                        @ [ReadDatabaseFile,
                           WriteMetaFile (meta_text P (salt e)
                                            (seal P (masterKey e) (the (db_file w'))))])
   \<and> (\<not> closed e \<longrightarrow> engine_close P (e, w) = (Inr u, e', w') \<longrightarrow>
        db_file w' = Some (db_rows w)
        \<and> metafile w' = Some (written_mode w,
                                meta_text P (salt e) (seal P (masterKey e) (db_rows w)))
        \<and> trace w' = trace w @ [Checkpoint, ReadDatabaseFile,
             WriteMetaFile (meta_text P (salt e) (seal P (masterKey e) (db_rows w))),
             CloseDatabase])"
proof -
  have "take (length (trace w)) (trace w') = trace w
      \<and> drop (length (trace w)) (trace w') \<in> verification_events
      \<and> (ReadDatabaseFile \<in> set (drop (length (trace w)) (trace w'))
           \<longrightarrow> db_file w' = Some (db_rows w'))
      \<and> (\<not> isl r \<longrightarrow> trace w' = trace w @ [Checkpoint, ReadDatabaseFile])"
    if "engine_open P options w = (r, w')" and "\<not> snd (fst (resolveSalt P w))"
    using open_discipline [OF that] .
  moreover note set_discipline [of P k v e w u e' w'] delete_discipline [of P k e w e' w']
    close_discipline [of P e w u e' w']
  ultimately show ?thesis
    by blast
qed

theorem checkpoint_discipline_witness:
  "map_sum id closed (fst (engine_open demo_prims demo_options demo_store)) = Inr False
   \<and> \<not> snd (fst (resolveSalt demo_prims demo_store))
   \<and> trace (snd (engine_open demo_prims demo_options demo_store))
       = trace demo_store @ [Checkpoint, ReadDatabaseFile]
   \<and> fst (engine_open demo_prims demo_options demo_stored) = Inl (IntegrityError integrity_default)
   \<and> \<not> snd (fst (resolveSalt demo_prims demo_stored))
   \<and> drop (length (trace demo_stored)) (trace (snd (engine_open demo_prims demo_options demo_stored)))
       \<in> verification_events
   \<and> fst (engine_set demo_prims (js ''k'') (js ''v'') (demo_engine, demo_store)) = Inr ()
   \<and> db_file (snd (snd (engine_set demo_prims (js ''k'') (js ''v'') (demo_engine, demo_store))))
       = db_file demo_store
   \<and> fst (engine_set demo_prims (js ''k'') (js ''v'') (demo_engine, demo_busy)) = Inr ()
   \<and> db_file (snd (snd (engine_set demo_prims (js ''k'') (js ''v'') (demo_engine, demo_busy))))
       = Some (db_rows (snd (snd (engine_set demo_prims (js ''k'') (js ''v'') (demo_engine, demo_busy)))))
   \<and> fst (engine_delete demo_prims (js ''k'') (demo_engine, demo_stored)) = Inr True
   \<and> db_file (snd (snd (engine_delete demo_prims (js ''k'') (demo_engine, demo_stored)))) \<noteq> None
   \<and> \<not> closed demo_engine
   \<and> fst (engine_close demo_prims (demo_engine, demo_stored)) = Inr ()
   \<and> db_file (snd (snd (engine_close demo_prims (demo_engine, demo_stored))))
       = Some (db_rows demo_stored)"
proof -
  let ?o1 = "engine_open demo_prims demo_options demo_store"
  let ?o2 = "engine_open demo_prims demo_options demo_stored"
  let ?s1 = "engine_set demo_prims (js ''k'') (js ''v'') (demo_engine, demo_store)"
  let ?s2 = "engine_set demo_prims (js ''k'') (js ''v'') (demo_engine, demo_busy)"
  let ?d = "engine_delete demo_prims (js ''k'') (demo_engine, demo_stored)"
  let ?c = "engine_close demo_prims (demo_engine, demo_stored)"
  have o1: "?o1 = (fst ?o1, snd ?o1)" and o2: "?o2 = (fst ?o2, snd ?o2)"
    by simp_all
  have ok1: "\<not> isl (fst ?o1)"
    using demo_open by (cases "fst ?o1") auto
  have s1: "fst ?s1 = Inr ()" and s2: "fst ?s2 = Inr ()"
    using engine_set_returns demo_store_facts by blast+
  then have s1': "?s1 = (Inr (), fst (snd ?s1), snd (snd ?s1))"
    and s2': "?s2 = (Inr (), fst (snd ?s2), snd (snd ?s2))"
    by (metis prod.collapse)+
  have d1: "fst ?d = Inr True"
    using engine_delete_returns [of demo_engine demo_stored demo_prims "js ''k''"]
      demo_store_facts(1) demo_stored_facts by simp
  then have d': "?d = (Inr True, fst (snd ?d), snd (snd ?d))"
    by (metis prod.collapse)
  have c1: "fst ?c = Inr ()"
    using engine_close_returns demo_store_facts(1) demo_stored_facts(2) by blast
  then have c': "?c = (Inr (), fst (snd ?c), snd (snd ?c))"
    by (metis prod.collapse)
  have "trace (snd ?o1) = trace demo_store @ [Checkpoint, ReadDatabaseFile]"
    using checkpoint_discipline
      [where P = demo_prims and options = demo_options and w = demo_store and r = "fst ?o1"
         and w' = "snd ?o1"] o1 demo_existing ok1
    by blast
  moreover
  have "drop (length (trace demo_stored)) (trace (snd ?o2)) \<in> verification_events"
    using checkpoint_discipline
      [where P = demo_prims and options = demo_options and w = demo_stored and r = "fst ?o2"
         and w' = "snd ?o2"] o2 demo_stored_existing
    by blast
  moreover
  have "db_file (snd (snd ?s1)) = db_file demo_store"
    using checkpoint_discipline
      [where P = demo_prims and w = demo_store and e = demo_engine and k = "js ''k''"
         and v = "js ''v''" and u = "()" and e' = "fst (snd ?s1)" and w' = "snd (snd ?s1)"]
      s1' demo_store_facts(6)
    by presburger
  moreover
  have "db_file (snd (snd ?s2)) = Some (db_rows (snd (snd ?s2)))"
    using checkpoint_discipline
      [where P = demo_prims and w = demo_busy and e = demo_engine and k = "js ''k''"
         and v = "js ''v''" and u = "()" and e' = "fst (snd ?s2)" and w' = "snd (snd ?s2)"]
      s2' demo_store_facts(5)
    by presburger
  moreover
  have "db_file (snd (snd ?d)) \<noteq> None"
    using checkpoint_discipline
      [where P = demo_prims and w = demo_stored and e = demo_engine and k = "js ''k''"
         and e' = "fst (snd ?d)" and w' = "snd (snd ?d)"] d'
    by blast
  moreover
  have "db_file (snd (snd ?c)) = Some (db_rows demo_stored)"
    using checkpoint_discipline
      [where P = demo_prims and w = demo_stored and e = demo_engine and u = "()"
         and e' = "fst (snd ?c)" and w' = "snd (snd ?c)"] c' demo_store_facts(1)
    by blast
  ultimately show ?thesis
    using demo_open demo_existing demo_open_tampered demo_stored_existing s1 s2 d1 c1
      demo_store_facts(1)
    by blast
qed

section \<open>Opening a store whose meta file does not parse\<close>

lemma resolveStoragePath_error:
  "resolveStoragePath P env options = Inl err \<Longrightarrow> err \<noteq> IntegrityError x"
  by (auto simp: resolveStoragePath_def resolveXdgPath_def Let_def split: if_splits)

lemma ensureDirectory_error:
  "fst (ensureDirectory dir w) = Inl err \<Longrightarrow> err \<noteq> IntegrityError x"
  by (auto simp: ensureDirectory_def verifyPermission_def Let_def split: if_splits option.splits)

lemma ensureKeyfile_error:
  "fst (ensureKeyfile P dir w) = Inl err \<Longrightarrow> err \<noteq> IntegrityError x"
  by (auto simp: ensureKeyfile_def verifyPermission_def createKeyfile_def readFile_keyfile_def
      isFileNotFoundError_def Let_def
      split: if_splits option.splits sum.splits prod.splits error.splits)

lemma SecretStore_open_error:
  "fst (SecretStore_open P dir w) = Inl err \<Longrightarrow> err \<noteq> IntegrityError x"
  by (auto simp: SecretStore_open_def Let_def split: if_splits)

lemma open_body_new_error:
  "open_body P mk dbp dir s True w = (Inl err, w') \<Longrightarrow> \<exists>message. err = checkpoint_failed message"
  by (cases "checkpoint_fault w") (auto simp: open_body_new_ok open_body_new_fails)

lemma checkpoint_failed_not_corrupted: "checkpoint_failed message \<noteq> corrupted_error"
  by (simp add: checkpoint_failed_def corrupted_error_def js_def)

lemma engine_open_Inl:
  assumes "engine_open P options w = (Inl err, w')"
  shows "resolveStoragePath P (process w) options = Inl err
       \<or> (\<exists>dir. fst (ensureDirectory dir w) = Inl err)
       \<or> (\<exists>dir w1. fst (ensureKeyfile P dir w1) = Inl err)
       \<or> (\<exists>dir w3. fst (SecretStore_open P dir w3) = Inl err)
       \<or> (\<exists>dir w1 kf w2 s isNew w3 w4 mk dbp w5.
             ensureDirectory dir w = (Inr (), w1) \<and> ensureKeyfile P dir w1 = (Inr kf, w2)
           \<and> resolveSalt P w2 = ((s, isNew), w3) \<and> SecretStore_open P dir w3 = (Inr (), w4)
           \<and> open_body P mk dbp dir s isNew w4 = (Inl err, w5))"
  using assms
  apply (simp add: engine_open_def and_then_def Let_def split: sum.splits prod.splits)
  apply (metis fst_conv)+
  done

lemma fresh_salt_entropy:
  "fresh_salt w = toString_hex (map (entropy w) [entropy_used w ..< entropy_used w + 32])"
  by (simp add: fresh_salt_def generateSalt_def randomBytes_def SALT_LENGTH_def)

lemma demo_not_json: "json_parse demo_prims (js ''not json'') = None"
  by (simp add: demo_prims_def demo_json_parse_def js_def)

lemma demo_corrupted_meta: "metafile demo_corrupted = Some (mode_meta, js ''not json'')"
  by (simp add: demo_corrupted_def demo_store_def demo_world_def)

lemma demo_corrupted_open:
  "map_sum id closed (fst (engine_open demo_prims demo_options demo_corrupted)) = Inr False"
proof -
  have p: "resolveStoragePath demo_prims (process demo_corrupted) demo_options = Inr (js ''/s'')"
    by (simp add: resolveStoragePath_def demo_options_def options_path_def truthy_def js_def)
  have posix: "\<not> win32 (process demo_corrupted)"
    by (simp add: demo_corrupted_def demo_store_def demo_world_def demo_env_def)
  have d: "ensureDirectory (js ''/s'') demo_corrupted = (Inr (), demo_corrupted)"
    using ensureDirectory_existing [OF posix, of mode_directory "js ''/s''"]
    by (simp add: demo_corrupted_def demo_store_def demo_world_def mode_directory_def octal_def)
  have k: "ensureKeyfile demo_prims (js ''/s'') demo_corrupted = (Inr (replicate 32 7), demo_corrupted)"
    using ensureKeyfile_existing [OF posix, of mode_keyfile "replicate 32 7" demo_prims "js ''/s''"]
    by (simp add: demo_corrupted_def demo_store_def demo_world_def mode_keyfile_def octal_def)
  note r = resolveSalt_unparseable [OF demo_corrupted_meta demo_not_json]
  have o: "SecretStore_open demo_prims (js ''/s'') (snd (generateSalt demo_corrupted))
             = (Inr (), snd (generateSalt demo_corrupted))"
    by (simp add: SecretStore_open_def generateSalt_def randomBytes_def demo_corrupted_def
        demo_store_def demo_world_def Let_def)
  have c: "checkpoint_fault (snd (generateSalt demo_corrupted)) = None"
    by (simp add: generateSalt_def randomBytes_def demo_corrupted_def demo_store_def demo_world_def)
  show ?thesis
    by (simp add: engine_open_def p d k r o open_body_new_ok [OF c] Let_def)
qed

text \<open>
  C3, as the claim states it, fails: \<open>resolveSalt\<close> catches the exception of
  \<open>JSON.parse\<close> and treats the store as new, so \<open>open\<close> does not reach
  \<open>verifyIntegrity\<close>.  With the text \<open>not json\<close> in \<open>meta.json\<close>, \<open>open\<close> returns an
  engine, open for use.
\<close>

theorem corrupted_meta_counterexample:
  "metafile demo_corrupted = Some (mode_meta, js ''not json'')
   \<and> json_parse demo_prims (js ''not json'') = None
   \<and> map_sum id closed (fst (engine_open demo_prims demo_options demo_corrupted)) = Inr False"
  using demo_corrupted_meta demo_not_json demo_corrupted_open by simp

text \<open>
  C3, amended.  If the meta file exists and its contents are not parseable JSON,
  \<open>open\<close> proceeds as for a new store: \<open>resolveSalt\<close> reports a new store, \<open>open\<close> never
  raises the IntegrityError "Metadata file (meta.json) is corrupted", and when it
  returns an engine, the engine has a fresh salt (32 bytes of randomness, in hex),
  nothing was verified, and \<open>meta.json\<close> has been overwritten with a new seal,
  taken after a checkpoint.
\<close>

theorem unparseable_meta_is_new_store:
  assumes "metafile w = Some (m, raw)" and "json_parse P raw = None"
  shows "snd (fst (resolveSalt P w))
       \<and> fst (engine_open P options w) \<noteq> Inl corrupted_error
       \<and> (\<forall>e w'. engine_open P options w = (Inr e, w') \<longrightarrow>
             (\<exists>n. salt e = toString_hex (map (entropy w) [n ..< n + 32]))
             \<and> map_option snd (metafile w')
                 = Some (meta_text P (salt e) (seal P (masterKey e) (db_rows w')))
             \<and> trace w' = trace w @ [Checkpoint, ReadDatabaseFile,
                   WriteMetaFile (meta_text P (salt e) (seal P (masterKey e) (db_rows w')))])"
proof (intro conjI allI impI)
  show new: "snd (fst (resolveSalt P w))"
    using resolveSalt_unparseable [OF assms] by simp
  show "fst (engine_open P options w) \<noteq> Inl corrupted_error"
  proof
    assume "fst (engine_open P options w) = Inl corrupted_error"
    then have "engine_open P options w = (Inl corrupted_error, snd (engine_open P options w))"
      by (metis prod.collapse)
    from engine_open_Inl [OF this]
    consider "resolveStoragePath P (process w) options = Inl corrupted_error"
      | dir where "fst (ensureDirectory dir w) = Inl corrupted_error"
      | dir w1 where "fst (ensureKeyfile P dir w1) = Inl corrupted_error"
      | dir w3 where "fst (SecretStore_open P dir w3) = Inl corrupted_error"
      | dir w1 kf w2 s isNew w3 w4 mk dbp w5 where
          "ensureDirectory dir w = (Inr (), w1)" "ensureKeyfile P dir w1 = (Inr kf, w2)"
          "resolveSalt P w2 = ((s, isNew), w3)"
          "open_body P mk dbp dir s isNew w4 = (Inl corrupted_error, w5)"
      by blast
    then show False
    proof cases
      case 1
      then show False
        using resolveStoragePath_error by (fastforce simp: corrupted_error_def)
    next
      case 2
      then show False
        using ensureDirectory_error by (fastforce simp: corrupted_error_def)
    next
      case 3
      then show False
        using ensureKeyfile_error by (fastforce simp: corrupted_error_def)
    next
      case 4
      then show False
        using SecretStore_open_error by (fastforce simp: corrupted_error_def)
    next
      case 5
      from ensureDirectory_keeps [OF 5(1)] ensureKeyfile_keeps [OF 5(2)]
      have "metafile w2 = metafile w"
        by simp
      from resolveSalt_flag [OF this, of P] new 5(3) have "isNew"
        by simp
      with 5(4) open_body_new_error [of P mk dbp dir s w4 corrupted_error w5]
      show False
        using checkpoint_failed_not_corrupted by metis
    qed
  qed
next
  fix e w'
  assume "engine_open P options w = (Inr e, w')"
  then obtain dir w1 kf w2 s isNew w3 w4 mk dbp where
    d: "ensureDirectory dir w = (Inr (), w1)" and
    k: "ensureKeyfile P dir w1 = (Inr kf, w2)" and
    r: "resolveSalt P w2 = ((s, isNew), w3)" and
    o: "SecretStore_open P dir w3 = (Inr (), w4)" and
    b: "open_body P mk dbp dir s isNew w4 = (Inr e, w')"
    by (rule engine_open_Inr) blast
  from ensureDirectory_keeps [OF d] ensureKeyfile_keeps [OF k]
  have m2: "metafile w2 = metafile w" and t2: "trace w2 = trace w" and e2: "entropy w2 = entropy w"
    by simp_all
  have "snd (fst (resolveSalt P w))"
    using resolveSalt_unparseable [OF assms] by simp
  with resolveSalt_flag [OF m2, of P] have "snd (fst (resolveSalt P w2))"
    by simp
  from resolveSalt_new [OF this] r have s: "s = fresh_salt w2" and new: "isNew"
    by simp_all
  from resolveSalt_keeps [OF r] SecretStore_open_keeps [OF o] t2 have t4: "trace w4 = trace w"
    by simp
  from b new have ok: "checkpoint_fault w4 = None"
    by (cases "checkpoint_fault w4") (auto simp: open_body_new_fails)
  from b new open_body_new_ok [OF ok, of P mk dbp dir s]
  have e: "salt e = s" "masterKey e = mk"
    and w': "metafile w' = Some (written_mode w4, meta_text P s (seal P mk (db_rows w4)))"
      "db_rows w' = db_rows w4"
      "trace w' = trace w4 @ [Checkpoint, ReadDatabaseFile,
                    WriteMetaFile (meta_text P s (seal P mk (db_rows w4)))]"
    by auto
  show "\<exists>n. salt e = toString_hex (map (entropy w) [n ..< n + 32])"
    using e(1) s e2 fresh_salt_entropy [of w2] by auto
  show "map_option snd (metafile w')
          = Some (meta_text P (salt e) (seal P (masterKey e) (db_rows w')))"
    using e w' by simp
  show "trace w' = trace w @ [Checkpoint, ReadDatabaseFile,
                   WriteMetaFile (meta_text P (salt e) (seal P (masterKey e) (db_rows w')))]"
    using e w' t4 by simp
qed

theorem unparseable_meta_is_new_store_witness:
  "metafile demo_corrupted = Some (mode_meta, js ''not json'')
   \<and> json_parse demo_prims (js ''not json'') = None
   \<and> snd (fst (resolveSalt demo_prims demo_corrupted))
   \<and> fst (engine_open demo_prims demo_options demo_corrupted) \<noteq> Inl corrupted_error
   \<and> map_sum id closed (fst (engine_open demo_prims demo_options demo_corrupted)) = Inr False
   \<and> trace (snd (engine_open demo_prims demo_options demo_corrupted))
       = trace demo_corrupted @ [Checkpoint, ReadDatabaseFile,
           WriteMetaFile (meta_text demo_prims
             (salt (projr (fst (engine_open demo_prims demo_options demo_corrupted))))
             (seal demo_prims (masterKey (projr (fst (engine_open demo_prims demo_options demo_corrupted))))
                (db_rows (snd (engine_open demo_prims demo_options demo_corrupted)))))]"
proof -
  note t = unparseable_meta_is_new_store [OF demo_corrupted_meta demo_not_json, of demo_options]
  obtain e where "fst (engine_open demo_prims demo_options demo_corrupted) = Inr e"
    using demo_corrupted_open
    by (cases "fst (engine_open demo_prims demo_options demo_corrupted)") auto
  then have e: "engine_open demo_prims demo_options demo_corrupted
                  = (Inr e, snd (engine_open demo_prims demo_options demo_corrupted))"
    and pe: "projr (fst (engine_open demo_prims demo_options demo_corrupted)) = e"
    by (metis prod.collapse, simp)
  from t e have "trace (snd (engine_open demo_prims demo_options demo_corrupted))
       = trace demo_corrupted @ [Checkpoint, ReadDatabaseFile,
           WriteMetaFile (meta_text demo_prims (salt e)
             (seal demo_prims (masterKey e)
                (db_rows (snd (engine_open demo_prims demo_options demo_corrupted)))))]"
    by blast
  with t pe demo_corrupted_meta demo_not_json demo_corrupted_open show ?thesis
    by simp
qed

section \<open>Where open verifies permissions\<close>

text \<open>
  What \<open>ensureDirectory\<close> and \<open>ensureKeyfile\<close> return on POSIX, and the errors the
  rest of \<open>open\<close> can raise: none of them is a SecurityError.
\<close>

lemma ensureDirectory_checked:
  assumes "\<not> win32 (process w)" and "mkdir_fault w = None"
  shows "ensureDirectory dir w =
           (if created_mode w AND octal [7, 7, 7] \<noteq> mode_directory
            then Inl (insecure (js ''directory'') mode_directory (created_mode w) dir)
            else Inr (),
            w\<lparr>dir_mode := Some (created_mode w)\<rparr>)"
  using assms
  by (cases "dir_mode w")
     (simp_all add: ensureDirectory_def verifyPermission_def insecure_def stat_mode_def
        created_mode_def Let_def)

lemma ensureKeyfile_checked:
  assumes "\<not> win32 (process w)" and "keyfile w = Some (km, content)"
  shows "ensureKeyfile P dir w =
           (if km AND octal [7, 7, 7] \<noteq> mode_keyfile
            then Inl (insecure (js ''keyfile'') mode_keyfile km (path_join P dir KEYFILE_NAME))
            else Inr content, w)"
  using assms by (simp add: ensureKeyfile_existing)

lemma verifyIntegrity_error:
  "verifyIntegrity P mk dbp cp w = (Inl err, w') \<Longrightarrow> error_code err \<noteq> Some ''SECURITY_ERROR''"
  by (auto simp: verifyIntegrity_def computeIntegrityHmac_def readFile_database_def and_then_def
      member_def Let_def
      split: option.splits if_splits sum.splits prod.splits json.splits)

lemma open_body_error:
  assumes "open_body P mk dbp dir s isNew w = (Inl err, w')"
  shows "error_code err \<noteq> Some ''SECURITY_ERROR''"
proof (cases isNew)
  case True
  with assms open_body_new_error [of P mk dbp dir s w err w'] show ?thesis
    by (auto simp: checkpoint_failed_def)
next
  case False
  with assms show ?thesis
    by (cases "verifyIntegrity P mk dbp (Some checkpoint) w";
        cases "fst (verifyIntegrity P mk dbp (Some checkpoint) w)")
       (auto simp: open_body_existing_unfold dest: verifyIntegrity_error)
qed

lemma SecretStore_open_not_security:
  "fst (SecretStore_open P dir w) = Inl err \<Longrightarrow> error_code err \<noteq> Some ''SECURITY_ERROR''"
  by (auto simp: SecretStore_open_def Let_def split: if_splits)

lemma engine_open_after_checks:
  assumes "resolveStoragePath P (process w) options = Inr dir"
    and "ensureDirectory dir w = (Inr (), w1)" and "ensureKeyfile P dir w1 = (Inr content, w2)"
    and "fst (engine_open P options w) = Inl err"
  shows "error_code err \<noteq> Some ''SECURITY_ERROR''"
proof -
  obtain s isNew w3 where rs: "resolveSalt P w2 = ((s, isNew), w3)"
    by (cases "resolveSalt P w2") auto
  obtain r4 w4 where o: "SecretStore_open P dir w3 = (r4, w4)"
    by (cases "SecretStore_open P dir w3")
  let ?mk = "deriveMasterKey P (getMachineIdentity (process w3)) content (from_hex s)"
  obtain r5 w5 where b: "open_body P ?mk (path_join P dir DB_NAME) dir s isNew w4 = (r5, w5)"
    by (cases "open_body P ?mk (path_join P dir DB_NAME) dir s isNew w4")
  show ?thesis
  proof (cases r4)
    case (Inl e4)
    with assms rs o have "err = e4"
      by (simp add: engine_open_def Let_def)
    with Inl o SecretStore_open_not_security [of P dir w3 err] show ?thesis
      by simp
  next
    case (Inr u)
    show ?thesis
    proof (cases r5)
      case (Inl e5)
      with assms rs o Inr b have "err = e5"
        by (simp add: engine_open_def Let_def)
      with Inl b open_body_error show ?thesis
        by blast
    next
      case e: (Inr engine)
      with assms rs o Inr b show ?thesis
        by (simp add: engine_open_def Let_def)
    qed
  qed
qed

lemma demo_path:
  "resolveStoragePath demo_prims env demo_options = Inr (js ''/s'')"
  by (simp add: resolveStoragePath_def demo_options_def options_path_def truthy_def js_def)

lemma demo_loose_open:
  "map_sum id closed (fst (engine_open demo_prims demo_options demo_loose)) = Inr False"
  by (simp add: engine_open_def demo_options_def resolveStoragePath_def options_path_def truthy_def
      ensureDirectory_def verifyPermission_def stat_mode_def ensureKeyfile_def readFile_keyfile_def
      resolveSalt_def readMetaFile_def SecretStore_open_def open_body_def verifyIntegrity_def
      compute_checkpoint_ok findAll_def member_def demo_loose_def
      demo_store_def demo_world_def demo_env_def demo_prims_def demo_json_parse_def
      mode_directory_def mode_keyfile_def mode_meta_def octal_def STORE_VERSION_def
      seal_def hmac_def sha256_def toString_hex_def js_def Let_def)

lemma demo_loose_tampered:
  "fst (engine_open demo_prims demo_options (demo_loose\<lparr>db_rows := [demo_row]\<rparr>))
     = Inl (IntegrityError integrity_default)"
  by (simp add: engine_open_def demo_options_def resolveStoragePath_def options_path_def truthy_def
      ensureDirectory_def verifyPermission_def stat_mode_def ensureKeyfile_def readFile_keyfile_def
      resolveSalt_def readMetaFile_def SecretStore_open_def open_body_def verifyIntegrity_def
      compute_checkpoint_ok findAll_def member_def demo_loose_def
      demo_row_def demo_tag_def
      demo_store_def demo_world_def demo_env_def demo_prims_def demo_json_parse_def
      mode_directory_def mode_keyfile_def mode_meta_def octal_def STORE_VERSION_def
      seal_def hmac_def sha256_def toString_hex_def js_def Let_def)

lemma demo_loose_facts:
  "\<not> win32 (process demo_loose)"
  "stat_mode demo_loose MetaFile = Some (octal [6, 4, 4])"
  "octal [6, 4, 4] AND octal [7, 7, 7] \<noteq> mode_meta"
  by (simp_all add: demo_loose_def demo_store_def demo_world_def demo_env_def stat_mode_def
      mode_meta_def octal_def)

lemma demo_modes:
  "\<not> win32 (process (demo_store\<lparr>dir_mode := Some (octal [5, 0, 0])\<rparr>))"
  "mkdir_fault (demo_store\<lparr>dir_mode := Some (octal [5, 0, 0])\<rparr>) = None"
  "created_mode (demo_store\<lparr>dir_mode := Some (octal [5, 0, 0])\<rparr>) = octal [5, 0, 0]"
  "octal [5, 0, 0] AND octal [7, 7, 7] \<noteq> mode_directory"
  "\<not> win32 (process (demo_store\<lparr>keyfile := Some (octal [6, 0, 0], replicate 32 0x07)\<rparr>))"
  "mkdir_fault (demo_store\<lparr>keyfile := Some (octal [6, 0, 0], replicate 32 0x07)\<rparr>) = None"
  "created_mode (demo_store\<lparr>keyfile := Some (octal [6, 0, 0], replicate 32 0x07)\<rparr>) = mode_directory"
  "keyfile (demo_store\<lparr>keyfile := Some (octal [6, 0, 0], replicate 32 0x07)\<rparr>)
     = Some (octal [6, 0, 0], replicate 32 0x07)"
  "octal [6, 0, 0] AND octal [7, 7, 7] \<noteq> mode_keyfile"
  "mode_directory AND octal [7, 7, 7] = mode_directory"
  "\<not> win32 (process (demo_loose\<lparr>db_rows := [demo_row]\<rparr>))"
  "mkdir_fault (demo_loose\<lparr>db_rows := [demo_row]\<rparr>) = None"
  "created_mode (demo_loose\<lparr>db_rows := [demo_row]\<rparr>) = mode_directory"
  "keyfile (demo_loose\<lparr>db_rows := [demo_row]\<rparr>) = Some (mode_keyfile, replicate 32 0x07)"
  "mode_keyfile AND octal [7, 7, 7] = mode_keyfile"
  "stat_mode (demo_loose\<lparr>db_rows := [demo_row]\<rparr>) MetaFile = Some (octal [6, 4, 4])"
  by (simp_all add: demo_loose_def demo_store_def demo_world_def demo_env_def created_mode_def
      stat_mode_def mode_directory_def mode_keyfile_def octal_def)

lemma demo_insecure:
  "insecure (js ''directory'') mode_directory (octal [5, 0, 0]) (js ''/s'')
     = SecurityError (js ''Insecure directory permissions'') (js ''0o700'') (js ''0o500'') (js ''/s'')"
  "insecure (js ''keyfile'') mode_keyfile (octal [6, 0, 0])
       (path_join demo_prims (js ''/s'') KEYFILE_NAME)
     = SecurityError (js ''Insecure keyfile permissions'') (js ''0o400'') (js ''0o600'')
         (js ''/s/.keyfile'')"
  by code_simp+

text \<open>
  C9, as the claim states it, fails for the meta file: \<open>verifyPermission\<close> is called
  from \<open>ensureDirectory\<close> and \<open>ensureKeyfile\<close> only, and nothing reads the mode of
  \<open>meta.json\<close>.  On POSIX, with \<open>meta.json\<close> at \<open>0o644\<close> where \<open>0o600\<close> is expected,
  \<open>open\<close> returns an engine, open for use.
\<close>

theorem meta_mode_unchecked_counterexample:
  "\<not> win32 (process demo_loose)
   \<and> stat_mode demo_loose MetaFile = Some (octal [6, 4, 4])
   \<and> octal [6, 4, 4] AND octal [7, 7, 7] \<noteq> mode_meta
   \<and> map_sum id closed (fst (engine_open demo_prims demo_options demo_loose)) = Inr False"
  using demo_loose_facts demo_loose_open by simp

text \<open>
  C9, amended.  On POSIX, \<open>open\<close> verifies the storage directory and the keyfile, in
  either direction: when the mode bits (\<open>& 0o777\<close>) of the directory differ from
  \<open>0o700\<close>, \<open>open\<close> raises the SecurityError "Insecure directory permissions" with the
  expected and the actual mode; when the directory passes and the mode bits of an
  existing keyfile differ from \<open>0o400\<close>, it raises "Insecure keyfile permissions"; and
  when both are equal to the expected modes, \<open>open\<close> raises no SecurityError at all,
  whatever the modes of the meta file and of the database file.
\<close>

theorem permissions_verified_on_open:
  assumes "\<not> win32 (process w)" and "resolveStoragePath P (process w) options = Inr dir"
    and "mkdir_fault w = None"
  shows "(created_mode w AND octal [7, 7, 7] \<noteq> mode_directory \<longrightarrow>
            engine_open P options w =
              (Inl (insecure (js ''directory'') mode_directory (created_mode w) dir),
               w\<lparr>dir_mode := Some (created_mode w)\<rparr>))
       \<and> (created_mode w AND octal [7, 7, 7] = mode_directory \<longrightarrow>
            keyfile w = Some (km, content) \<longrightarrow> km AND octal [7, 7, 7] \<noteq> mode_keyfile \<longrightarrow>
            engine_open P options w =
              (Inl (insecure (js ''keyfile'') mode_keyfile km (path_join P dir KEYFILE_NAME)),
               w\<lparr>dir_mode := Some (created_mode w)\<rparr>))
       \<and> (created_mode w AND octal [7, 7, 7] = mode_directory \<longrightarrow>
            keyfile w = Some (km, content) \<longrightarrow> km AND octal [7, 7, 7] = mode_keyfile \<longrightarrow>
            fst (engine_open P options w) = Inl err \<longrightarrow>
            error_code err \<noteq> Some ''SECURITY_ERROR'')"
proof (intro conjI impI)
  let ?w1 = "w\<lparr>dir_mode := Some (created_mode w)\<rparr>"
  note d = ensureDirectory_checked [OF assms(1,3), of dir]
  have p1: "\<not> win32 (process ?w1)"
    using assms(1) by simp
  {
    assume "created_mode w AND octal [7, 7, 7] \<noteq> mode_directory"
    with d assms(2)
    show "engine_open P options w =
              (Inl (insecure (js ''directory'') mode_directory (created_mode w) dir), ?w1)"
      by (simp add: engine_open_def)
  }
  {
    assume ok: "created_mode w AND octal [7, 7, 7] = mode_directory"
      and k: "keyfile w = Some (km, content)"
    then have k1: "keyfile ?w1 = Some (km, content)"
      by simp
    note kc = ensureKeyfile_checked [OF p1 k1, of P dir]
    {
      assume "km AND octal [7, 7, 7] \<noteq> mode_keyfile"
      with d ok kc assms(2)
      show "engine_open P options w =
              (Inl (insecure (js ''keyfile'') mode_keyfile km (path_join P dir KEYFILE_NAME)), ?w1)"
        by (simp add: engine_open_def)
    }
    {
      assume "km AND octal [7, 7, 7] = mode_keyfile" and e: "fst (engine_open P options w) = Inl err"
      with d ok kc have "ensureDirectory dir w = (Inr (), ?w1)"
        and "ensureKeyfile P dir ?w1 = (Inr content, ?w1)"
        by simp_all
      from engine_open_after_checks [OF assms(2) this e]
      show "error_code err \<noteq> Some ''SECURITY_ERROR''" .
    }
  }
qed

theorem permissions_verified_on_open_witness:
  "fst (engine_open demo_prims demo_options (demo_store\<lparr>dir_mode := Some (octal [5, 0, 0])\<rparr>))
     = Inl (SecurityError (js ''Insecure directory permissions'') (js ''0o700'') (js ''0o500'')
              (js ''/s''))
   \<and> fst (engine_open demo_prims demo_options
            (demo_store\<lparr>keyfile := Some (octal [6, 0, 0], replicate 32 0x07)\<rparr>))
     = Inl (SecurityError (js ''Insecure keyfile permissions'') (js ''0o400'') (js ''0o600'')
              (js ''/s/.keyfile''))
   \<and> stat_mode (demo_loose\<lparr>db_rows := [demo_row]\<rparr>) MetaFile = Some (octal [6, 4, 4])
   \<and> fst (engine_open demo_prims demo_options (demo_loose\<lparr>db_rows := [demo_row]\<rparr>))
     = Inl (IntegrityError integrity_default)
   \<and> error_code (IntegrityError integrity_default) \<noteq> Some ''SECURITY_ERROR''"
proof -
  let ?wd = "demo_store\<lparr>dir_mode := Some (octal [5, 0, 0])\<rparr>"
  let ?wk = "demo_store\<lparr>keyfile := Some (octal [6, 0, 0], replicate 32 0x07)\<rparr>"
  let ?wm = "demo_loose\<lparr>db_rows := [demo_row]\<rparr>"
  have "fst (engine_open demo_prims demo_options ?wd)
          = Inl (insecure (js ''directory'') mode_directory (octal [5, 0, 0]) (js ''/s''))"
    using permissions_verified_on_open
      [where w = ?wd and P = demo_prims and options = demo_options and dir = "js ''/s''"]
      demo_path demo_modes
    by simp
  moreover
  have "fst (engine_open demo_prims demo_options ?wk)
          = Inl (insecure (js ''keyfile'') mode_keyfile (octal [6, 0, 0])
                  (path_join demo_prims (js ''/s'') KEYFILE_NAME))"
    using permissions_verified_on_open
      [where w = ?wk and P = demo_prims and options = demo_options and dir = "js ''/s''"
         and km = "octal [6, 0, 0]" and content = "replicate 32 0x07"]
      demo_path demo_modes
    by simp
  moreover
  have "error_code (IntegrityError integrity_default) \<noteq> Some ''SECURITY_ERROR''"
    using permissions_verified_on_open
      [where w = ?wm and P = demo_prims and options = demo_options and dir = "js ''/s''"
         and km = mode_keyfile and content = "replicate 32 0x07"
         and err = "IntegrityError integrity_default"]
      demo_path demo_modes(10-15) demo_loose_tampered
    by (simp del: error_code.simps)
  ultimately show ?thesis
    using demo_insecure demo_modes(16) demo_loose_tampered by simp
qed

end
